theory Spec2Isabelle
  imports Complex_Main
begin

section \<open>Encoder capability registry\<close>

text \<open>
  The capability map \<^verbatim>\<open>ENCODERS\<close> of \<^verbatim>\<open>avi_to_mp4.py\<close> is a Python dict from an
  encoder id to an ffmpeg codec name. It is modelled as an association list in insertion
  order; \<open>dict_has\<close> is Python's \<^verbatim>\<open>key in d\<close> and \<open>map_of\<close> is \<^verbatim>\<open>d[key]\<close>, with
  \<open>None\<close> standing for the \<^verbatim>\<open>KeyError\<close>.
\<close>

type_synonym encoders = "(string \<times> string) list"

definition dict_has :: "(string \<times> 'v) list \<Rightarrow> string \<Rightarrow> bool" where
  "dict_has d k = (k \<in> set (map fst d))"

text \<open>Line 277: the value of \<^verbatim>\<open>ENCODERS\<close> before detection has run.\<close>

definition ENCODERS_init :: encoders where
  "ENCODERS_init = [(''CPU'', ''libx264'')]"

text \<open>
  Lines 283 to 297: the command of the synthetic test encode. The outcome of running it is
  not computed by the program but by the operating system, so \<open>test_encoder\<close> takes it as
  a parameter \<open>run\<close>: \<open>None\<close> when \<^verbatim>\<open>subprocess.run\<close> raises (missing binary, timeout),
  \<open>Some rc\<close> for a return code.
\<close>

definition test_encoder_cmd :: "string \<Rightarrow> string \<Rightarrow> string list" where
  "test_encoder_cmd ffmpeg enc =
     (let test_size = (if enc = ''h264_nvenc'' then ''256x144'' else ''128x72'') in
      [ffmpeg, ''-hide_banner'', ''-loglevel'', ''error'',
       ''-f'', ''lavfi'', ''-i'', ''testsrc=size='' @ test_size @ '':rate=30'',
       ''-t'', ''0.2'', ''-an'']
      @ (if enc = ''h264_amf'' \<or> enc = ''h264_qsv'' then [''-vf'', ''format=nv12'', ''-pix_fmt'', ''nv12'']
         else if enc = ''h264_nvenc'' then [''-pix_fmt'', ''yuv420p'']
         else [''-vf'', ''format=yuv420p'', ''-pix_fmt'', ''yuv420p''])
      @ [''-c:v'', enc, ''-f'', ''null'', ''-''])"

definition test_encoder :: "string option \<Rightarrow> (string list \<Rightarrow> int option) \<Rightarrow> string \<Rightarrow> bool" where
  "test_encoder FFMPEG_PATH run enc =
     (case FFMPEG_PATH of
        None \<Rightarrow> False
      | Some p \<Rightarrow>
          if p = [] then False
          else (case run (test_encoder_cmd p enc) of
                  None \<Rightarrow> False
                | Some rc \<Rightarrow> rc = 0))"

text \<open>Lines 308 to 321. The result is the new value of the global \<^verbatim>\<open>ENCODERS\<close>.\<close>

definition detect_encoders_once :: "string option \<Rightarrow> (string list \<Rightarrow> int option) \<Rightarrow> encoders" where
  "detect_encoders_once FFMPEG_PATH run =
     [(''CPU'', ''libx264'')]
     @ (if test_encoder FFMPEG_PATH run ''h264_amf'' then [(''AMF'', ''h264_amf'')] else [])
     @ (if test_encoder FFMPEG_PATH run ''h264_nvenc'' then [(''NVENC'', ''h264_nvenc'')] else [])
     @ (if test_encoder FFMPEG_PATH run ''h264_qsv'' then [(''QSV'', ''h264_qsv'')] else [])"

text \<open>Lines 323 to 327: the \<^verbatim>\<open>for\<close> loop over the priority tuple, then the fallback.\<close>

fun first_pref :: "encoders \<Rightarrow> string list \<Rightarrow> string" where
  "first_pref E [] = ''CPU''"
| "first_pref E (pref # prefs) = (if dict_has E pref then pref else first_pref E prefs)"

definition auto_best_encoder :: "encoders \<Rightarrow> string" where
  "auto_best_encoder E = first_pref E [''AMF'', ''NVENC'', ''QSV'']"

section \<open>Python strings\<close>

text \<open>
  A Python \<^verbatim>\<open>str\<close> is a sequence of code points. A \<open>char\<close> stands for a code point
  below 256, so a \<open>string\<close> is a \<^verbatim>\<open>str\<close> over the first 256 code points (ASCII and
  Latin-1), and the methods below are \<^verbatim>\<open>str.lower\<close>, \<^verbatim>\<open>str.endswith\<close>,
  \<^verbatim>\<open>str.startswith\<close>, \<^verbatim>\<open>str.strip\<close>, \<^verbatim>\<open>str.isdigit\<close>, \<^verbatim>\<open>int\<close> and
  \<^verbatim>\<open>s.split("=", 1)[1]\<close> as Python defines them on these code points: the capital
  letters are A to Z and 0xC0 to 0xDE without the multiplication sign 0xD7; white space
  is 0x09 to 0x0D, 0x1C to 0x20, 0x85 and 0xA0; \<^verbatim>\<open>isdigit\<close> accepts 0 to 9 and the
  superscripts 0xB2, 0xB3 and 0xB9, which \<^verbatim>\<open>int\<close> rejects.
\<close>

definition upper_letters :: string where
  "upper_letters =
     ''ABCDEFGHIJKLMNOPQRSTUVWXYZ''
     @ [CHR 0xC0, CHR 0xC1, CHR 0xC2, CHR 0xC3, CHR 0xC4, CHR 0xC5,
                 CHR 0xC6, CHR 0xC7, CHR 0xC8, CHR 0xC9, CHR 0xCA, CHR 0xCB,
                 CHR 0xCC, CHR 0xCD, CHR 0xCE, CHR 0xCF, CHR 0xD0, CHR 0xD1,
                 CHR 0xD2, CHR 0xD3, CHR 0xD4, CHR 0xD5, CHR 0xD6, CHR 0xD8,
                 CHR 0xD9, CHR 0xDA, CHR 0xDB, CHR 0xDC, CHR 0xDD, CHR 0xDE]"

definition lower_letters :: string where
  "lower_letters =
     ''abcdefghijklmnopqrstuvwxyz''
     @ [CHR 0xE0, CHR 0xE1, CHR 0xE2, CHR 0xE3, CHR 0xE4, CHR 0xE5,
                 CHR 0xE6, CHR 0xE7, CHR 0xE8, CHR 0xE9, CHR 0xEA, CHR 0xEB,
                 CHR 0xEC, CHR 0xED, CHR 0xEE, CHR 0xEF, CHR 0xF0, CHR 0xF1,
                 CHR 0xF2, CHR 0xF3, CHR 0xF4, CHR 0xF5, CHR 0xF6, CHR 0xF8,
                 CHR 0xF9, CHR 0xFA, CHR 0xFB, CHR 0xFC, CHR 0xFD, CHR 0xFE]"

definition lower_char :: "char \<Rightarrow> char" where
  "lower_char c =
     (case map_of (zip upper_letters lower_letters) c of
        Some l \<Rightarrow> l
      | None \<Rightarrow> c)"

definition lower :: "string \<Rightarrow> string" where
  "lower s = map lower_char s"

definition endswith :: "string \<Rightarrow> string \<Rightarrow> bool" where
  "endswith s suf = (take (length suf) (rev s) = rev suf)"

definition startswith :: "string \<Rightarrow> string \<Rightarrow> bool" where
  "startswith s pre = (take (length pre) s = pre)"

definition is_space :: "char \<Rightarrow> bool" where
  "is_space c = (c \<in> set [CHR 0x09, CHR 0x0A, CHR 0x0B, CHR 0x0C, CHR 0x0D,
                            CHR 0x1C, CHR 0x1D, CHR 0x1E, CHR 0x1F, CHR 0x20,
                            CHR 0x85, CHR 0xA0])"

definition strip :: "string \<Rightarrow> string" where
  "strip s = rev (dropWhile is_space (rev (dropWhile is_space s)))"

definition digit_val :: "char \<Rightarrow> nat option" where
  "digit_val c = map_of (zip ''0123456789'' [0, 1, 2, 3, 4, 5, 6, 7, 8, 9]) c"

definition is_digit_char :: "char \<Rightarrow> bool" where
  "is_digit_char c = (digit_val c \<noteq> None \<or> c \<in> set [CHR 0xB2, CHR 0xB3, CHR 0xB9])"

definition isdigit :: "string \<Rightarrow> bool" where
  "isdigit s = (s \<noteq> [] \<and> list_all is_digit_char s)"

definition int_of_digits :: "string \<Rightarrow> nat" where
  "int_of_digits s = foldl (\<lambda>n c. 10 * n + (case digit_val c of Some d \<Rightarrow> d | None \<Rightarrow> 0)) 0 s"

text \<open>
  \<^verbatim>\<open>int(s)\<close> for a string that passed \<^verbatim>\<open>isdigit\<close>; \<open>None\<close> is the \<^verbatim>\<open>ValueError\<close>
  raised for a superscript digit, and for a string longer than the interpreter's limit on
  integer strings \<open>mxd\<close> (\<^verbatim>\<open>sys.get_int_max_str_digits()\<close>: 4300 by default from
  Python 3.11 on, 0 when there is no limit).
\<close>

definition py_int :: "nat \<Rightarrow> string \<Rightarrow> nat option" where
  "py_int mxd s =
     (if s \<noteq> [] \<and> list_all (\<lambda>c. digit_val c \<noteq> None) s \<and> (mxd = 0 \<or> length s \<le> mxd)
      then Some (int_of_digits s) else None)"

text \<open>\<^verbatim>\<open>line.split("=", 1)[1]\<close>: the text after the first \<^verbatim>\<open>=\<close>; \<open>None\<close> is the
  \<^verbatim>\<open>IndexError\<close> raised when the line has no \<^verbatim>\<open>=\<close>.\<close>

definition after_eq :: "string \<Rightarrow> string option" where
  "after_eq s = (case dropWhile (\<lambda>c. c \<noteq> CHR ''='') s of [] \<Rightarrow> None | _ # rest \<Rightarrow> Some rest)"

section \<open>Python floats\<close>

text \<open>
  A Python \<^verbatim>\<open>float\<close> is an IEEE 754 double: a finite value, an infinity or a
  not-a-number. \<open>Fin r\<close> is the double of value \<open>r\<close>; the two zeros, which compare equal
  and are both false, are one value. \<open>rnd\<close> rounds a real to the nearest double, ties to
  the even significand: the spacing of the doubles around a value \<open>a\<close> is 2 to the power
  \<open>ulp_exp a\<close> (53 significant bits, least exponent -1074), and a result of 2 to the
  power 1024 or more is an overflow.
\<close>

datatype pyfloat = Fin real | PInf | NInf | NaN

definition round_even :: "real \<Rightarrow> int" where
  "round_even x =
     (if x - of_int \<lfloor>x\<rfloor> < 1 / 2 then \<lfloor>x\<rfloor>
      else if x - of_int \<lfloor>x\<rfloor> > 1 / 2 then \<lfloor>x\<rfloor> + 1
      else if even \<lfloor>x\<rfloor> then \<lfloor>x\<rfloor> else \<lfloor>x\<rfloor> + 1)"

definition ulp_exp :: "real \<Rightarrow> int" where
  "ulp_exp a = max (\<lfloor>log 2 a\<rfloor> - 52) (- 1074)"

definition rnd_abs :: "real \<Rightarrow> real" where
  "rnd_abs a = (if a = 0 then 0 else of_int (round_even (a / 2 powi ulp_exp a)) * 2 powi ulp_exp a)"

definition rnd :: "real \<Rightarrow> pyfloat" where
  "rnd x =
     (if rnd_abs \<bar>x\<bar> \<ge> 2 ^ 1024 then (if x > 0 then PInf else NInf)
      else Fin (sgn x * rnd_abs \<bar>x\<bar>))"

text \<open>\<^verbatim>\<open>a < b\<close> on floats: false whenever one side is not a number.\<close>

fun py_lt :: "pyfloat \<Rightarrow> pyfloat \<Rightarrow> bool" where
  "py_lt (Fin a) (Fin b) = (a < b)"
| "py_lt (Fin a) PInf = True"
| "py_lt NInf (Fin b) = True"
| "py_lt NInf PInf = True"
| "py_lt _ _ = False"

text \<open>\<^verbatim>\<open>min(a, b)\<close> keeps \<open>a\<close> unless \<open>b < a\<close>, and \<^verbatim>\<open>max(a, b)\<close> keeps \<open>a\<close> unless
  \<open>b > a\<close>.\<close>

definition py_min :: "pyfloat \<Rightarrow> pyfloat \<Rightarrow> pyfloat" where
  "py_min a b = (if py_lt b a then b else a)"

definition py_max :: "pyfloat \<Rightarrow> pyfloat \<Rightarrow> pyfloat" where
  "py_max a b = (if py_lt a b then b else a)"

text \<open>\<^verbatim>\<open>a / b\<close> on floats; \<open>None\<close> is the \<^verbatim>\<open>ZeroDivisionError\<close>. An overflow gives an
  infinity, not an exception.\<close>

fun float_div :: "pyfloat \<Rightarrow> pyfloat \<Rightarrow> pyfloat option" where
  "float_div a (Fin b) =
     (if b = 0 then None
      else (case a of
              Fin x \<Rightarrow> Some (rnd (x / b))
            | PInf \<Rightarrow> Some (if b > 0 then PInf else NInf)
            | NInf \<Rightarrow> Some (if b > 0 then NInf else PInf)
            | NaN \<Rightarrow> Some NaN))"
| "float_div (Fin x) PInf = Some (Fin 0)"
| "float_div (Fin x) NInf = Some (Fin 0)"
| "float_div a b = Some NaN"

text \<open>\<^verbatim>\<open>a * b\<close> on floats.\<close>

fun float_mul :: "pyfloat \<Rightarrow> pyfloat \<Rightarrow> pyfloat" where
  "float_mul (Fin a) (Fin b) = rnd (a * b)"
| "float_mul NaN b = NaN"
| "float_mul a NaN = NaN"
| "float_mul PInf (Fin b) = (if b = 0 then NaN else if b > 0 then PInf else NInf)"
| "float_mul NInf (Fin b) = (if b = 0 then NaN else if b > 0 then NInf else PInf)"
| "float_mul (Fin a) PInf = (if a = 0 then NaN else if a > 0 then PInf else NInf)"
| "float_mul (Fin a) NInf = (if a = 0 then NaN else if a > 0 then NInf else PInf)"
| "float_mul PInf PInf = PInf"
| "float_mul PInf NInf = NInf"
| "float_mul NInf PInf = NInf"
| "float_mul NInf NInf = PInf"

text \<open>\<^verbatim>\<open>n / m\<close> on integers, for \<open>m\<close> not 0: the quotient rounded once; \<open>None\<close> is the
  \<^verbatim>\<open>OverflowError\<close> of a quotient too large for a float. \<^verbatim>\<open>float(n)\<close> likewise.\<close>

definition int_truediv :: "int \<Rightarrow> int \<Rightarrow> pyfloat option" where
  "int_truediv n m = (case rnd (of_int n / of_int m) of Fin r \<Rightarrow> Some (Fin r) | _ \<Rightarrow> None)"

definition float_of_int :: "int \<Rightarrow> pyfloat option" where
  "float_of_int n = (case rnd (of_int n) of Fin r \<Rightarrow> Some (Fin r) | _ \<Rightarrow> None)"

section \<open>Media inspector\<close>

text \<open>
  The value \<^verbatim>\<open>json.loads\<close> returns. A dict is the list of its items (\<open>map_of\<close> is
  \<^verbatim>\<open>d.get\<close>); a number is a Python \<^verbatim>\<open>int\<close> or a \<^verbatim>\<open>float\<close>.
\<close>

datatype json =
    JNull
  | JBool bool
  | JInt int
  | JFloat pyfloat
  | JStr string
  | JArr "json list"
  | JObj "(string \<times> json) list"

text \<open>Python truthiness (\<^verbatim>\<open>not x\<close> is its negation).\<close>

fun truthy :: "json \<Rightarrow> bool" where
  "truthy JNull = False"
| "truthy (JBool b) = b"
| "truthy (JInt n) = (n \<noteq> 0)"
| "truthy (JFloat x) = (x \<noteq> Fin 0)"
| "truthy (JStr s) = (s \<noteq> [])"
| "truthy (JArr xs) = (xs \<noteq> [])"
| "truthy (JObj kvs) = (kvs \<noteq> [])"

text \<open>\<^verbatim>\<open>x.get(k, default)\<close>: only a dict has the method, everything else raises
  \<^verbatim>\<open>AttributeError\<close> (\<open>None\<close>).\<close>

fun py_get :: "json \<Rightarrow> string \<Rightarrow> json \<Rightarrow> json option" where
  "py_get (JObj kvs) k dflt = Some (case map_of kvs k of Some v \<Rightarrow> v | None \<Rightarrow> dflt)"
| "py_get _ k dflt = None"

text \<open>\<^verbatim>\<open>float(x)\<close>. Parsing a string is Python's own and is a parameter \<open>fos\<close>; \<open>None\<close>
  is a \<^verbatim>\<open>ValueError\<close>, a \<^verbatim>\<open>TypeError\<close> or the \<^verbatim>\<open>OverflowError\<close> of an integer too
  large for a float.\<close>

fun py_float :: "(string \<Rightarrow> pyfloat option) \<Rightarrow> json \<Rightarrow> pyfloat option" where
  "py_float fos (JInt n) = float_of_int n"
| "py_float fos (JFloat x) = Some x"
| "py_float fos (JBool b) = Some (Fin (if b then 1 else 0))"
| "py_float fos (JStr s) = fos s"
| "py_float fos _ = None"

text \<open>\<^verbatim>\<open>for stream in x\<close>: the elements the loop visits, \<open>None\<close> when \<open>x\<close> is not iterable.\<close>

fun py_iter :: "json \<Rightarrow> json list option" where
  "py_iter (JArr xs) = Some xs"
| "py_iter (JObj kvs) = Some (map (\<lambda>kv. JStr (fst kv)) kvs)"
| "py_iter (JStr s) = Some (map (\<lambda>c. JStr [c]) s)"
| "py_iter _ = None"

record file_info =
  duration :: pyfloat
  video :: "(string \<times> json) list"
  audio :: json

definition no_file_info :: file_info where
  "no_file_info = \<lparr>duration = Fin 0, video = [], audio = JStr []\<rparr>"

text \<open>Lines 352 to 360, with \<open>v\<close> for \<^verbatim>\<open>video_info\<close> and \<open>a\<close> for \<^verbatim>\<open>audio_codec\<close>. A stream
  that is not a dict raises.\<close>

fun scan_streams :: "json list \<Rightarrow> (string \<times> json) list \<Rightarrow> json \<Rightarrow> ((string \<times> json) list \<times> json) option" where
  "scan_streams [] v a = Some (v, a)"
| "scan_streams (JObj kvs # ss) v a =
     (if map_of kvs ''codec_type'' = Some (JStr ''video'') \<and> v = [] then
        scan_streams ss
          [(''codec_name'', case map_of kvs ''codec_name'' of Some x \<Rightarrow> x | None \<Rightarrow> JStr []),
           (''profile'', case map_of kvs ''profile'' of Some x \<Rightarrow> x | None \<Rightarrow> JStr []),
           (''pix_fmt'', case map_of kvs ''pix_fmt'' of Some x \<Rightarrow> x | None \<Rightarrow> JStr [])] a
      else if map_of kvs ''codec_type'' = Some (JStr ''audio'') \<and> \<not> truthy a then
        scan_streams ss v (case map_of kvs ''codec_name'' of Some x \<Rightarrow> x | None \<Rightarrow> JStr [])
      else scan_streams ss v a)"
| "scan_streams (_ # ss) v a = None"

text \<open>What running ffprobe gave: \<^verbatim>\<open>subprocess.run\<close> raised, or it returned a code and
  a standard output that \<^verbatim>\<open>json.loads\<close> parses (\<open>Some\<close>) or rejects (\<open>None\<close>).\<close>

datatype probe_run = Probe_raises | Probe_done int "json option"

text \<open>Lines 332 to 371. Every exception ends in the handler of line 369, which returns
  the same value as a non-zero return code.\<close>

definition parse_file_info :: "(string \<Rightarrow> pyfloat option) \<Rightarrow> json \<Rightarrow> file_info option" where
  "parse_file_info fos data =
     (case py_get data ''format'' (JObj []) of
        None \<Rightarrow> None
      | Some fmt \<Rightarrow>
     (case py_get fmt ''duration'' (JInt 0) of
        None \<Rightarrow> None
      | Some dj \<Rightarrow>
     (case py_float fos dj of
        None \<Rightarrow> None
      | Some d \<Rightarrow>
     (case py_get data ''streams'' (JArr []) of
        None \<Rightarrow> None
      | Some sj \<Rightarrow>
     (case py_iter sj of
        None \<Rightarrow> None
      | Some ss \<Rightarrow>
     (case scan_streams ss [] (JStr []) of
        None \<Rightarrow> None
      | Some (v, a) \<Rightarrow> Some \<lparr>duration = d, video = v, audio = a\<rparr>))))))"

definition get_file_info :: "string option \<Rightarrow> (string \<Rightarrow> pyfloat option) \<Rightarrow> probe_run \<Rightarrow> file_info" where
  "get_file_info FFPROBE_PATH fos pr =
     (case FFPROBE_PATH of
        None \<Rightarrow> no_file_info
      | Some _ \<Rightarrow>
     (case pr of
        Probe_raises \<Rightarrow> no_file_info
      | Probe_done returncode out \<Rightarrow>
          if returncode \<noteq> 0 then no_file_info
          else (case out of
                  None \<Rightarrow> no_file_info
                | Some data \<Rightarrow>
                    (case parse_file_info fos data of
                       None \<Rightarrow> no_file_info
                     | Some fi \<Rightarrow> fi))))"

section \<open>Command builder\<close>

text \<open>Lines 615 to 620: the encoder id the command is built for.\<close>

definition chosen_encoder :: "encoders \<Rightarrow> string \<Rightarrow> string" where
  "chosen_encoder E encode_w = (if \<not> dict_has E encode_w then auto_best_encoder E else encode_w)"

text \<open>Lines 622 to 627.\<close>

definition safe_copy :: "(string \<times> json) list \<Rightarrow> string \<Rightarrow> bool" where
  "safe_copy v chosen =
     (map_of v ''codec_name'' = Some (JStr ''h264'')
      \<and> map_of v ''pix_fmt'' = Some (JStr ''yuv420p'')
      \<and> (map_of v ''profile'' = Some (JStr ''Baseline'')
         \<or> map_of v ''profile'' = Some (JStr ''Main'')
         \<or> map_of v ''profile'' = Some (JStr ''High''))
      \<and> chosen = ''CPU'')"

text \<open>Lines 636 to 643.\<close>

definition quality_args :: "string \<Rightarrow> string list" where
  "quality_args enc =
     (if enc = ''libx264'' then [''-preset'', ''medium'', ''-crf'', ''18'']
      else if enc = ''h264_amf'' then [''-rc'', ''cqp'', ''-qp_i'', ''18'', ''-qp_p'', ''18'', ''-qp_b'', ''18'']
      else if enc = ''h264_nvenc'' then [''-rc'', ''vbr'', ''-cq'', ''18'', ''-b:v'', ''0'']
      else if enc = ''h264_qsv'' then [''-global_quality'', ''18'']
      else [])"

text \<open>Lines 629 to 645; \<open>None\<close> is the \<^verbatim>\<open>KeyError\<close> of \<^verbatim>\<open>ENCODERS[chosen]\<close>.\<close>

definition video_args :: "encoders \<Rightarrow> (string \<times> json) list \<Rightarrow> string \<Rightarrow> string list option" where
  "video_args E v chosen =
     (if safe_copy v chosen then Some [''-c:v'', ''copy'']
      else (case map_of E chosen of
              None \<Rightarrow> None
            | Some enc \<Rightarrow>
                Some ([''-c:v'', enc, ''-pix_fmt'', ''yuv420p'', ''-profile:v'', ''high'', ''-level'', ''4.1'']
                      @ quality_args enc)))"

text \<open>Lines 647 to 650.\<close>

definition audio_args :: "json \<Rightarrow> string list" where
  "audio_args a =
     (if a = JStr ''aac'' \<or> a = JStr ''mp3'' then [''-c:a'', ''copy'']
      else [''-c:a'', ''aac'', ''-b:a'', ''192k''])"

text \<open>Lines 609 to 652: the argument list handed to \<^verbatim>\<open>subprocess.Popen\<close>.\<close>

definition build_cmd :: "string \<Rightarrow> encoders \<Rightarrow> string \<Rightarrow> string \<Rightarrow> file_info \<Rightarrow> string \<Rightarrow> string list option" where
  "build_cmd ffmpeg E input_file out_path fi chosen =
     (case video_args E (video fi) chosen of
        None \<Rightarrow> None
      | Some va \<Rightarrow>
          Some ([ffmpeg, ''-hide_banner'', ''-loglevel'', ''error'',
                 ''-y'', ''-i'', input_file,
                 ''-progress'', ''pipe:1'', ''-nostats'']
                @ va @ audio_args (audio fi) @ [''-movflags'', ''+faststart'', out_path]))"

text \<open>An option followed by its value: \<open>adjacent a b xs\<close> holds when \<open>b\<close> comes right
  after \<open>a\<close> somewhere in \<open>xs\<close>.\<close>

fun adjacent :: "string \<Rightarrow> string \<Rightarrow> string list \<Rightarrow> bool" where
  "adjacent a b (x # y # xs) = ((x = a \<and> y = b) \<or> adjacent a b (y # xs))"
| "adjacent a b _ = False"

section \<open>Shared state and the controls\<close>

text \<open>
  Lines 376 to 379 declare three module globals, \<^verbatim>\<open>current_process\<close>, \<^verbatim>\<open>pause_event\<close>
  and \<^verbatim>\<open>cancel_event\<close>; the widgets \<^verbatim>\<open>status_label\<close>, \<^verbatim>\<open>progress_bar\<close> and
  \<^verbatim>\<open>pause_btn\<close> are module globals too. There is one of each in the process, whatever the
  number of conversions running, so the model has one record for them. A process handle is
  a number. \<open>signals\<close> lists the signals the code sends, oldest first; a failed delivery
  is ignored by the code and not modelled.
\<close>

datatype status = St_Idle | St_Working | St_Paused | St_Cancelled | St_Done | St_Progress pyfloat

datatype signal = SIGSTOP | SIGCONT | SIGTERM | SIGKILL

record world =
  current_process :: "nat option"
  pause_event :: bool
  cancel_event :: bool
  status_label :: status
  progress_bar :: pyfloat
  pause_btn :: string
  signals :: "(nat \<times> signal) list"

definition world_init :: world where
  "world_init = \<lparr>current_process = None, pause_event = True, cancel_event = False,
                  status_label = St_Idle, progress_bar = Fin 0, pause_btn = ''Pause'', signals = []\<rparr>"

text \<open>Lines 387 to 398. \<open>St_Progress pct\<close> stands for the text of line 734, of which only
  the percentage is kept; the integers 0 and 100 that the code passes and compares with
  are the floats of the same value.\<close>

definition set_ui_state :: "status option \<Rightarrow> pyfloat option \<Rightarrow> string option \<Rightarrow> world \<Rightarrow> world" where
  "set_ui_state st progress pause_btn_text w =
     (let w1 = (case st of None \<Rightarrow> w | Some s \<Rightarrow> w\<lparr>status_label := s\<rparr>);
          w2 = (case progress of None \<Rightarrow> w1 | Some p \<Rightarrow> w1\<lparr>progress_bar := py_max (Fin 0) (py_min (Fin 100) p)\<rparr>)
      in (case pause_btn_text of
            None \<Rightarrow> w2
          | Some t \<Rightarrow>
              if t = ''Pause'' then w2\<lparr>pause_btn := t, pause_event := True\<rparr>
              else w2\<lparr>pause_btn := t\<rparr>))"

definition send_signal :: "signal \<Rightarrow> world \<Rightarrow> world" where
  "send_signal sg w =
     (case current_process w of
        None \<Rightarrow> w
      | Some h \<Rightarrow> w\<lparr>signals := signals w @ [(h, sg)]\<rparr>)"

text \<open>Lines 780 to 798.\<close>

definition pause_resume :: "world \<Rightarrow> world" where
  "pause_resume w =
     (if pause_event w then
        set_ui_state (Some St_Paused) None (Some ''Resume'') (send_signal SIGSTOP (w\<lparr>pause_event := False\<rparr>))
      else
        set_ui_state None None (Some ''Pause'') (send_signal SIGCONT (w\<lparr>pause_event := True\<rparr>)))"

text \<open>Lines 800 to 802.\<close>

definition cancel :: "world \<Rightarrow> world" where
  "cancel w = set_ui_state (Some St_Cancelled) (Some (Fin 0)) None (w\<lparr>cancel_event := True\<rparr>)"

text \<open>Lines 588 and 589, the first writes of every call of \<^verbatim>\<open>convert_file\<close> that passes
  the input checks, and line 657, the assignment of the new process.\<close>

definition job_begin :: "world \<Rightarrow> world" where
  "job_begin w = w\<lparr>cancel_event := False, pause_event := True\<rparr>"

definition job_popen :: "nat \<Rightarrow> world \<Rightarrow> world" where
  "job_popen h w = w\<lparr>current_process := Some h\<rparr>"

text \<open>
  What the other threads do to the shared state while one call of \<^verbatim>\<open>convert_file\<close> runs:
  the two buttons, a posted \<^verbatim>\<open>set_ui_state\<close> run by the interface thread, and the two
  writes of another call of \<^verbatim>\<open>convert_file\<close>.
\<close>

datatype action =
    Ui_pause_resume
  | Ui_cancel
  | Ui_set_state "status option" "pyfloat option" "string option"
  | Job_begin
  | Job_popen nat

fun apply_action :: "action \<Rightarrow> world \<Rightarrow> world" where
  "apply_action Ui_pause_resume w = pause_resume w"
| "apply_action Ui_cancel w = cancel w"
| "apply_action (Ui_set_state st p b) w = set_ui_state st p b w"
| "apply_action Job_begin w = job_begin w"
| "apply_action (Job_popen h) w = job_popen h w"

fun apply_actions :: "action list \<Rightarrow> world \<Rightarrow> world" where
  "apply_actions [] w = w"
| "apply_actions (a # as) w = apply_actions as (apply_action a w)"

text \<open>
  \<^verbatim>\<open>pause_event.wait()\<close> of line 717, with the actions of the other threads from the
  moment the wait starts: it returns as soon as the event is set, and never when the event
  stays clear.
\<close>

fun wait_returns :: "world \<Rightarrow> action list \<Rightarrow> bool" where
  "wait_returns w [] = pause_event w"
| "wait_returns w (a # as) = (pause_event w \<or> wait_returns (apply_action a w) as)"

section \<open>Job controller\<close>

text \<open>The calls posted to the interface thread with \<^verbatim>\<open>ui(...)\<close>, in order; the last
  constructor is the \<^verbatim>\<open>root.after(800, ...)\<close> of line 772. Messages are named, not spelt.\<close>

datatype msg =
    M_tools_missing
  | M_skipped_not_avi string
  | M_missing_file string
  | M_no_file_info
  | M_input
  | M_encoder_switch
  | M_video_copy
  | M_video_enc string
  | M_start_failed
  | M_cancelled_deleted
  | M_cancelled_not_deleted
  | M_cancelled
  | M_read_error
  | M_ffmpeg_failed
  | M_last_stderr "string list"
  | M_output_missing
  | M_output string

datatype ui_call =
    Log msg
  | Startup_notice
  | Set_state "status option" "pyfloat option" "string option"
  | Encode_w_set string
  | Save_settings
  | After_800_idle_reset

datatype outcome =
    Tools_missing
  | Skipped
  | Uncaught_error
  | Inspection_failed
  | Launch_failed
  | Cancelled
  | Failed
  | Completed
  | Blocked

text \<open>The settings and tool paths a call of \<^verbatim>\<open>convert_file\<close> reads.\<close>

record app =
  FFMPEG_PATH :: "string option"
  FFPROBE_PATH :: "string option"
  ENCODERS :: encoders
  encode_w :: string

text \<open>One pass of the loop of line 694: what the other threads did since the worker last
  looked, the line read, and what they do from the start of the pause wait on.\<close>

record iter =
  before :: "action list"
  raw :: string
  during_wait :: "action list"

text \<open>
  What the operating system answers during one call. \<open>out_initial\<close> is the file at the
  output path before the call and \<open>out_found\<close> the one there when the controller inspects
  the path after the process (\<open>None\<close>: no file; \<open>Some n\<close>: a file of \<open>n\<close> bytes);
  \<open>remove_ok\<close> tells whether \<^verbatim>\<open>os.remove\<close> succeeds; \<open>popen\<close> is the handle of the new
  process, \<open>None\<close> when \<^verbatim>\<open>subprocess.Popen\<close> raises; \<open>read_raises\<close> tells whether reading
  the standard output ends with an exception instead of the end of the stream;
  \<open>child_exit\<close> is what \<^verbatim>\<open>current_process.wait()\<close> returns; \<open>graceful_exit\<close> tells
  whether the process ends within two seconds of \<^verbatim>\<open>terminate()\<close>; \<open>out_path\<close> is the path
  computed at line 594; \<open>float_of_str\<close> is \<^verbatim>\<open>float\<close> on a string and
  \<open>int_max_str_digits\<close> the interpreter's limit on integer strings.
\<close>

record job_env =
  input_exists :: bool
  makedirs_ok :: bool
  out_path :: string
  float_of_str :: "string \<Rightarrow> pyfloat option"
  int_max_str_digits :: nat
  probe :: probe_run
  popen :: "nat option"
  iters :: "iter list"
  read_raises :: bool
  final_actions :: "action list"
  child_exit :: int
  graceful_exit :: bool
  out_initial :: "nat option"
  out_found :: "nat option"
  remove_ok :: bool
  stderr_tail :: "string list"

text \<open>What a call leaves: how it ended, the calls it posted, how many times it ran the
  probe, the commands it gave to \<^verbatim>\<open>Popen\<close>, the file at the output path and the shared
  state.\<close>

record result =
  outcome :: outcome
  calls :: "ui_call list"
  probes :: nat
  popen_calls :: "string list list"
  out_file :: "nat option"
  world_end :: world

text \<open>
  Lines 719 to 734, the body of the loop after the pause wait: the calls posted for one
  line, \<open>None\<close> when the body raises (line 721 on a line without \<^verbatim>\<open>=\<close>, line 725 on
  digits that \<^verbatim>\<open>int\<close> rejects or on a quotient too large for a float). The elapsed
  time, the rate and the size of the output go into the status text only, cannot raise,
  and are left out.
\<close>

definition progress_line :: "nat \<Rightarrow> pyfloat \<Rightarrow> string \<Rightarrow> ui_call list option" where
  "progress_line mxd d rawline =
     (let line = strip rawline in
      if startswith line ''out_time_ms'' then
        (case after_eq line of
           None \<Rightarrow> None
         | Some rest \<Rightarrow>
             (let val = strip rest in
              if \<not> isdigit val then Some []
              else
                (case py_int mxd val of
                   None \<Rightarrow> None
                 | Some n \<Rightarrow>
                (case int_truediv (int n) 1000000 of
                   None \<Rightarrow> None
                 | Some out_time \<Rightarrow>
                (case (if d \<noteq> Fin 0
                       then (case float_div out_time d of
                               None \<Rightarrow> None
                             | Some q \<Rightarrow> Some (float_mul q (Fin 100)))
                       else Some (Fin 0)) of
                   None \<Rightarrow> None
                 | Some pct \<Rightarrow>
                     Some [Set_state None (Some pct) None,
                           Set_state (Some (St_Progress pct)) None None])))))
      else Some [])"

datatype loop_end = Loop_cancel | Loop_blocked | Loop_raise | Loop_eof

text \<open>Lines 694 to 734: the loop over the lines of the standard output.\<close>

fun run_loop :: "nat \<Rightarrow> pyfloat \<Rightarrow> bool \<Rightarrow> iter list \<Rightarrow> world \<Rightarrow> ui_call list \<times> loop_end \<times> world" where
  "run_loop mxd d rr [] w = ([], if rr then Loop_raise else Loop_eof, w)"
| "run_loop mxd d rr (it # its) w =
     (let w1 = apply_actions (before it) w in
      if cancel_event w1 then ([], Loop_cancel, w1)
      else if \<not> wait_returns w1 (during_wait it) then
        ([], Loop_blocked, apply_actions (during_wait it) w1)
      else
        (case progress_line mxd d (raw it) of
           None \<Rightarrow> ([], Loop_raise, apply_actions (during_wait it) w1)
         | Some cs \<Rightarrow>
             (case run_loop mxd d rr its (apply_actions (during_wait it) w1) of
                (cs', e, w2) \<Rightarrow> (cs @ cs', e, w2))))"

text \<open>Lines 696 to 715: cancellation seen at the top of a pass.\<close>

definition cancel_in_loop :: "job_env \<Rightarrow> world \<Rightarrow> result" where
  "cancel_in_loop j w =
     (let w1 = (if graceful_exit j then send_signal SIGTERM w
                else send_signal SIGKILL (send_signal SIGTERM w)) in
      if out_found j \<noteq> None then
        (if remove_ok j then
           \<lparr>outcome = Cancelled,
            calls = [Log M_cancelled_deleted, Set_state (Some St_Idle) (Some (Fin 0)) (Some ''Pause'')],
            probes = 0, popen_calls = [], out_file = None, world_end = w1\<rparr>
         else
           \<lparr>outcome = Cancelled,
            calls = [Log M_cancelled_not_deleted, Set_state (Some St_Idle) (Some (Fin 0)) (Some ''Pause'')],
            probes = 0, popen_calls = [], out_file = out_found j, world_end = w1\<rparr>)
      else
        \<lparr>outcome = Cancelled,
         calls = [Log M_cancelled, Set_state (Some St_Idle) (Some (Fin 0)) (Some ''Pause'')],
         probes = 0, popen_calls = [], out_file = None, world_end = w1\<rparr>)"

text \<open>Lines 742 to 772: after the loop, with \<open>rc\<close> the exit status the controller holds.\<close>

definition finish :: "job_env \<Rightarrow> int \<Rightarrow> world \<Rightarrow> result" where
  "finish j rc w =
     (if cancel_event w then
        \<lparr>outcome = Cancelled,
         calls = [Set_state (Some St_Idle) (Some (Fin 0)) (Some ''Pause'')],
         probes = 0, popen_calls = [],
         out_file = (if out_found j \<noteq> None \<and> remove_ok j then None else out_found j),
         world_end = w\<rparr>
      else if rc \<noteq> 0 then
        \<lparr>outcome = Failed,
         calls = [Log M_ffmpeg_failed]
                 @ (if stderr_tail j \<noteq> [] then [Log (M_last_stderr (stderr_tail j))] else [])
                 @ [Set_state (Some St_Idle) (Some (Fin 0)) (Some ''Pause'')],
         probes = 0, popen_calls = [],
         out_file = (if out_found j = Some 0 \<and> remove_ok j then None else out_found j),
         world_end = w\<rparr>
      else if \<not> (case out_found j of None \<Rightarrow> False | Some n \<Rightarrow> n > 0) then
        \<lparr>outcome = Failed,
         calls = [Log M_output_missing, Set_state (Some St_Idle) (Some (Fin 0)) (Some ''Pause'')],
         probes = 0, popen_calls = [], out_file = out_found j, world_end = w\<rparr>
      else
        \<lparr>outcome = Completed,
         calls = [Set_state (Some St_Done) (Some (Fin 100)) None, Log (M_output (out_path j)),
                  After_800_idle_reset],
         probes = 0, popen_calls = [], out_file = out_found j, world_end = w\<rparr>)"

text \<open>Lines 670 to 772: the controller from the started process on, for the duration \<open>d\<close>
  the probe gave.\<close>

definition run_job :: "job_env \<Rightarrow> pyfloat \<Rightarrow> world \<Rightarrow> result" where
  "run_job j d w =
     (case run_loop (int_max_str_digits j) d (read_raises j) (iters j) w of
        (cs, e, w1) \<Rightarrow>
          (case e of
             Loop_cancel \<Rightarrow> (let r = cancel_in_loop j w1 in r\<lparr>calls := cs @ calls r\<rparr>)
           | Loop_blocked \<Rightarrow>
               \<lparr>outcome = Blocked, calls = cs, probes = 0, popen_calls = [],
                out_file = out_found j, world_end = w1\<rparr>
           | Loop_raise \<Rightarrow>
               (let r = finish j (- 1) (apply_actions (final_actions j) w1)
                in r\<lparr>calls := cs @ [Log M_read_error] @ calls r\<rparr>)
           | Loop_eof \<Rightarrow>
               (let r = finish j (child_exit j) (apply_actions (final_actions j) w1)
                in r\<lparr>calls := cs @ calls r\<rparr>)))"

text \<open>A return before any process is started: the output path is left as it was.\<close>

definition stop :: "outcome \<Rightarrow> ui_call list \<Rightarrow> nat \<Rightarrow> string list list \<Rightarrow> job_env \<Rightarrow> world \<Rightarrow> result" where
  "stop oc cs np pc j w =
     \<lparr>outcome = oc, calls = cs, probes = np, popen_calls = pc, out_file = out_initial j, world_end = w\<rparr>"

text \<open>The calls posted between the probe and the launch: lines 606, 607 and 616 to 620,
  then line 631 or 645.\<close>

definition announce_input :: "encoders \<Rightarrow> string \<Rightarrow> ui_call list" where
  "announce_input E ew =
     [Log M_input, Set_state (Some St_Working) None None]
     @ (if \<not> dict_has E ew
        then [Log M_encoder_switch, Encode_w_set (chosen_encoder E ew), Save_settings]
        else [])"

definition announce_video :: "(string \<times> json) list \<Rightarrow> string \<Rightarrow> ui_call list" where
  "announce_video v chosen = [Log (if safe_copy v chosen then M_video_copy else M_video_enc chosen)]"

text \<open>Lines 571 to 772.\<close>

definition convert_file :: "app \<Rightarrow> job_env \<Rightarrow> string \<Rightarrow> world \<Rightarrow> result" where
  "convert_file a j input_file w =
     (case (FFMPEG_PATH a, FFPROBE_PATH a) of
        (None, _) \<Rightarrow> stop Tools_missing [Log M_tools_missing, Startup_notice] 0 [] j w
      | (Some _, None) \<Rightarrow> stop Tools_missing [Log M_tools_missing, Startup_notice] 0 [] j w
      | (Some ffmpeg, Some _) \<Rightarrow>
     if \<not> endswith (lower input_file) ''.avi'' then
       stop Skipped [Log (M_skipped_not_avi input_file)] 0 [] j w
     else if \<not> input_exists j then
       stop Skipped [Log (M_missing_file input_file)] 0 [] j w
     else
       (let w1 = job_begin w in
        if \<not> makedirs_ok j then stop Uncaught_error [] 0 [] j w1
        else
          (let fi = get_file_info (FFPROBE_PATH a) (float_of_str j) (probe j) in
           if duration fi = Fin 0 then stop Inspection_failed [Log M_no_file_info] 1 [] j w1
           else
             (let chosen = chosen_encoder (ENCODERS a) (encode_w a);
                  pre = announce_input (ENCODERS a) (encode_w a)
              in
              (case build_cmd ffmpeg (ENCODERS a) input_file (out_path j) fi chosen of
                 None \<Rightarrow> stop Uncaught_error pre 1 [] j w1
               | Some cmd \<Rightarrow>
                   (let pre2 = pre @ announce_video (video fi) chosen in
                    (case popen j of
                       None \<Rightarrow>
                         stop Launch_failed
                           (pre2 @ [Log M_start_failed,
                                    Set_state (Some St_Idle) (Some (Fin 0)) (Some ''Pause'')])
                           1 [cmd] j w1
                     | Some h \<Rightarrow>
                         (let r = run_job j (duration fi) (job_popen h w1)
                          in r\<lparr>calls := pre2 @ calls r, probes := 1, popen_calls := [cmd]\<rparr>))))))))"


section \<open>The passes of a job, for the statements\<close>




section \<open>A sample conversion\<close>

text \<open>
  The scenario of the specification, for the concrete instances below: \<^verbatim>\<open>movie.avi\<close>
  lasts 120 seconds and holds H.264 video (profile High, yuv420p) and MP3 audio, no
  hardware encoder was detected and the encoder setting is CPU. The process prints two
  lines and exits with status 0, leaving 1000 bytes. \<open>ex_json2\<close> is the probe of an
  MPEG-4 file without a recognised audio codec, \<open>ex_json3\<close> the first probe with the
  duration \<open>-1\<close>, \<open>ex_json4\<close> the first probe with the duration 30; \<open>ex_nines\<close> is a
  progress line of 400 digits, of value \<open>ex_big\<close>.
\<close>

definition ex_app :: app where
  "ex_app = \<lparr>FFMPEG_PATH = Some ''ffmpeg.exe'', FFPROBE_PATH = Some ''ffprobe.exe'',
             ENCODERS = detect_encoders_once (Some ''ffmpeg.exe'') (\<lambda>cmd. None),
             encode_w = ''CPU''\<rparr>"

definition ex_json :: json where
  "ex_json =
     JObj [(''streams'',
            JArr [JObj [(''codec_name'', JStr ''h264''), (''profile'', JStr ''High''),
                        (''codec_type'', JStr ''video''), (''pix_fmt'', JStr ''yuv420p'')],
                  JObj [(''codec_name'', JStr ''mp3''), (''codec_type'', JStr ''audio'')]]),
           (''format'', JObj [(''duration'', JStr ''120.000000'')])]"

definition ex_json2 :: json where
  "ex_json2 =
     JObj [(''streams'',
            JArr [JObj [(''codec_name'', JStr ''mpeg4''), (''profile'', JStr ''Simple Profile''),
                        (''codec_type'', JStr ''video''), (''pix_fmt'', JStr ''yuv420p'')],
                  JObj [(''codec_type'', JStr ''audio'')]]),
           (''format'', JObj [(''duration'', JStr ''120.000000'')])]"

definition ex_json3 :: json where
  "ex_json3 =
     JObj [(''streams'',
            JArr [JObj [(''codec_name'', JStr ''h264''), (''profile'', JStr ''High''),
                        (''codec_type'', JStr ''video''), (''pix_fmt'', JStr ''yuv420p'')],
                  JObj [(''codec_name'', JStr ''mp3''), (''codec_type'', JStr ''audio'')]]),
           (''format'', JObj [(''duration'', JInt (- 1))])]"




definition ex_float :: "string \<Rightarrow> pyfloat option" where
  "ex_float s = (if s = ''120.000000'' then Some (Fin 120) else None)"

definition ex_env :: job_env where
  "ex_env = \<lparr>input_exists = True, makedirs_ok = True, out_path = ''out/movie.mp4'',
             float_of_str = ex_float, int_max_str_digits = 4300, probe = Probe_done 0 (Some ex_json), popen = Some 2,
             iters = [\<lparr>before = [], raw = ''out_time_ms=60000000'', during_wait = []\<rparr>,
                      \<lparr>before = [], raw = ''progress=end'', during_wait = []\<rparr>],
             read_raises = False, final_actions = [], child_exit = 0, graceful_exit = True,
             out_initial = None, out_found = Some 1000, remove_ok = True, stderr_tail = []\<rparr>"

definition ex_cmd :: "string list" where
  "ex_cmd = [''ffmpeg.exe'', ''-hide_banner'', ''-loglevel'', ''error'', ''-y'',
             ''-i'', ''movie.avi'', ''-progress'', ''pipe:1'', ''-nostats'',
             ''-c:v'', ''copy'', ''-c:a'', ''copy'', ''-movflags'',
             ''+faststart'', ''out/movie.mp4'']"

definition ex_cmd2 :: "string list" where
  "ex_cmd2 = [''ffmpeg.exe'', ''-hide_banner'', ''-loglevel'', ''error'', ''-y'',
              ''-i'', ''movie.avi'', ''-progress'', ''pipe:1'', ''-nostats'',
              ''-c:v'', ''libx264'', ''-pix_fmt'', ''yuv420p'', ''-profile:v'', ''high'',
              ''-level'', ''4.1'', ''-preset'', ''medium'', ''-crf'', ''18'',
              ''-c:a'', ''aac'', ''-b:a'', ''192k'', ''-movflags'',
              ''+faststart'', ''out/movie.mp4'']"

section \<open>Properties of the registry\<close>

lemma detect_without_ffmpeg: "detect_encoders_once None run = ENCODERS_init"
  by (simp add: detect_encoders_once_def test_encoder_def ENCODERS_init_def)

lemma dict_has_detect:
  "dict_has (detect_encoders_once p run) k \<longleftrightarrow>
     k = ''CPU''
     \<or> (k = ''AMF'' \<and> test_encoder p run ''h264_amf'')
     \<or> (k = ''NVENC'' \<and> test_encoder p run ''h264_nvenc'')
     \<or> (k = ''QSV'' \<and> test_encoder p run ''h264_qsv'')"
  by (auto simp: dict_has_def detect_encoders_once_def)

lemma map_of_detect:
  "map_of (detect_encoders_once p run) k =
     (if k = ''CPU'' then Some ''libx264''
      else if k = ''AMF'' \<and> test_encoder p run ''h264_amf'' then Some ''h264_amf''
      else if k = ''NVENC'' \<and> test_encoder p run ''h264_nvenc'' then Some ''h264_nvenc''
      else if k = ''QSV'' \<and> test_encoder p run ''h264_qsv'' then Some ''h264_qsv''
      else None)"
  by (simp add: detect_encoders_once_def)

lemma auto_best_detect:
  "auto_best_encoder (detect_encoders_once p run) =
     (if test_encoder p run ''h264_amf'' then ''AMF''
      else if test_encoder p run ''h264_nvenc'' then ''NVENC''
      else if test_encoder p run ''h264_qsv'' then ''QSV''
      else ''CPU'')"
  by (simp add: auto_best_encoder_def dict_has_detect)

text \<open>
  Claim C4. On every capability map that detection produces, \<open>auto_best_encoder\<close> returns
  the first of AMF, NVENC, QSV that is a key of the map (AMF when its test encode
  succeeded, otherwise NVENC when its test succeeded, otherwise QSV when its test
  succeeded) and CPU when none of the three is; the key CPU is in every such map, so the
  returned id is always a key and its lookup is defined.
\<close>

theorem C4_auto_best_encoder_priority:
  "auto_best_encoder (detect_encoders_once p run) =
     (if dict_has (detect_encoders_once p run) ''AMF'' then ''AMF''
      else if dict_has (detect_encoders_once p run) ''NVENC'' then ''NVENC''
      else if dict_has (detect_encoders_once p run) ''QSV'' then ''QSV''
      else ''CPU'')
   \<and> dict_has (detect_encoders_once p run) ''CPU''
   \<and> map_of (detect_encoders_once p run) ''CPU'' = Some ''libx264''
   \<and> dict_has (detect_encoders_once p run) (auto_best_encoder (detect_encoders_once p run))
   \<and> map_of (detect_encoders_once p run) (auto_best_encoder (detect_encoders_once p run)) \<noteq> None"
  by (simp add: auto_best_detect dict_has_detect map_of_detect)

section \<open>Properties of the floats\<close>

lemma round_even_of_int: "round_even (of_int k) = k"
  by (simp add: round_even_def)


lemma ulp_exp_le:
  assumes "a > 0" and "a < 2 powi (53 + e)" and "- 1074 \<le> e"
  shows "ulp_exp a \<le> e"
proof -
  have "(2::real) powr of_int (53 + e) = 2 powi (53 + e)"
    by (rule powr_real_of_int') simp_all
  with assms(2) have "a < 2 powr of_int (53 + e)" by simp
  then have "log 2 a < of_int (53 + e)"
    using assms(1) by (simp only: log_less_iff)
  then have "\<lfloor>log 2 a\<rfloor> < 53 + e"
    by (simp add: floor_less_iff)
  with assms(3) show ?thesis by (simp add: ulp_exp_def)
qed

lemma rnd_abs_exact:
  assumes "0 \<le> m" and "m < 2 ^ 53" and "- 1074 \<le> e"
  shows "rnd_abs (of_int m * 2 powi e) = of_int m * 2 powi e"
proof (cases "m = 0")
  case True
  then show ?thesis by (simp add: rnd_abs_def)
next
  case False
  let ?a = "of_int m * 2 powi e :: real"
  have mpos: "0 < m" using False assms(1) by simp
  have apos: "?a > 0" using mpos by simp
  have "real_of_int m < 2 ^ 53" using assms(2) by (metis of_int_less_numeral_power_cancel_iff)
  then have "?a < 2 ^ 53 * 2 powi e" by simp
  also have "\<dots> = 2 powi (53 + e)" by (simp add: power_int_add)
  finally have lt: "?a < 2 powi (53 + e)" .
  define E where "E = ulp_exp ?a"
  have E: "E \<le> e" unfolding E_def using ulp_exp_le[OF apos lt assms(3)] .
  have "?a / 2 powi E = of_int m * 2 powi (e - E)"
    by (simp add: power_int_diff)
  also have "\<dots> = of_int m * 2 ^ nat (e - E)"
    using E by (simp add: power_int_def)
  also have "\<dots> = of_int (m * 2 ^ nat (e - E))" by simp
  finally have q: "?a / 2 powi E = of_int (m * 2 ^ nat (e - E))" .
  have "?a \<noteq> 0" using apos by linarith
  then have "rnd_abs ?a = of_int (round_even (?a / 2 powi E)) * 2 powi E"
    unfolding rnd_abs_def E_def by (simp only: if_False)
  also have "\<dots> = of_int (m * 2 ^ nat (e - E)) * 2 powi E"
    unfolding q round_even_of_int ..
  also have "\<dots> = ?a / 2 powi E * 2 powi E" unfolding q ..
  also have "\<dots> = ?a" by simp
  finally show ?thesis .
qed

lemma rnd_exact:
  assumes "\<bar>m\<bar> < 2 ^ 53" and "- 1074 \<le> e" and "e \<le> 971"
  shows "rnd (of_int m * 2 powi e) = Fin (of_int m * 2 powi e)"
proof -
  let ?x = "of_int m * 2 powi e :: real"
  have ax: "\<bar>?x\<bar> = of_int \<bar>m\<bar> * 2 powi e"
    by (simp add: abs_mult)
  have r: "rnd_abs \<bar>?x\<bar> = \<bar>?x\<bar>"
    unfolding ax using assms by (intro rnd_abs_exact) simp_all
  have "real_of_int \<bar>m\<bar> < 2 ^ 53" using assms(1) by (metis of_int_less_numeral_power_cancel_iff)
  then have "\<bar>?x\<bar> < 2 ^ 53 * 2 powi e" unfolding ax by simp
  also have "\<dots> = 2 powi (53 + e)" by (simp add: power_int_add)
  also have "\<dots> \<le> 2 powi 1024"
    using assms(3) by (intro power_int_increasing) simp_all
  finally have "\<bar>?x\<bar> < 2 ^ 1024" by simp
  with r show ?thesis
    by (simp add: rnd_def mult.commute[of "sgn _"] flip: abs_sgn) (metis mult.commute mult_sgn_abs)
qed

lemma rnd_int: "\<bar>m\<bar> < 2 ^ 53 \<Longrightarrow> rnd (of_int m) = Fin (of_int m)"
  using rnd_exact[of m 0] by simp





lemma rnd_values:
  "rnd 0 = Fin 0" "rnd 60 = Fin 60" "rnd 90 = Fin 90" "rnd (1 / 2) = Fin (1 / 2)"
  "rnd 50 = Fin 50" "rnd 2 = Fin 2" "rnd 200 = Fin 200" "rnd 30 = Fin 30"
  "rnd (- 1) = Fin (- 1)" "rnd (- 60) = Fin (- 60)" "rnd (- 6000) = Fin (- 6000)"
  using rnd_int[of 0] rnd_int[of 60] rnd_int[of 90] rnd_exact[of 1 "- 1"] rnd_int[of 50]
    rnd_int[of 2] rnd_int[of 200] rnd_int[of 30] rnd_int[of "- 1"] rnd_int[of "- 60"]
    rnd_int[of "- 6000"]
  by simp_all

section \<open>Properties of the command builder and of the sample\<close>

lemma adjacent_append:
  "adjacent a b (xs @ ys) \<longleftrightarrow>
     adjacent a b xs \<or> adjacent a b ys \<or> (xs \<noteq> [] \<and> ys \<noteq> [] \<and> last xs = a \<and> hd ys = b)"
proof (induction xs)
  case Nil
  then show ?case by simp
next
  case (Cons x xs)
  show ?case
  proof (cases xs)
    case Nil
    then show ?thesis by (cases ys) auto
  next
    case (Cons y zs)
    with Cons.IH show ?thesis by auto
  qed
qed

lemma build_cmd_audio_copy:
  assumes "build_cmd ffmpeg E input_file outp fi chosen = Some cmd"
  shows "adjacent ''-c:a'' ''copy'' cmd \<longleftrightarrow> (audio fi = JStr ''aac'' \<or> audio fi = JStr ''mp3'')"
  using assms
  by (auto simp: build_cmd_def video_args_def audio_args_def quality_args_def adjacent_append
      split: option.splits if_splits)

lemma build_cmd_audio_aac:
  assumes "build_cmd ffmpeg E input_file outp fi chosen = Some cmd"
  shows "(adjacent ''-c:a'' ''aac'' cmd \<and> adjacent ''-b:a'' ''192k'' cmd)
          \<longleftrightarrow> \<not> (audio fi = JStr ''aac'' \<or> audio fi = JStr ''mp3'')"
  using assms
  by (auto simp: build_cmd_def video_args_def audio_args_def quality_args_def adjacent_append
      split: option.splits if_splits)

lemma build_cmd_video_copy:
  assumes "build_cmd ffmpeg E input_file outp fi chosen = Some cmd"
    and "map_of E chosen \<noteq> Some ''copy''"
  shows "adjacent ''-c:v'' ''copy'' cmd \<longleftrightarrow> safe_copy (video fi) chosen"
  using assms
  by (auto simp: build_cmd_def video_args_def audio_args_def quality_args_def adjacent_append
      split: option.splits if_splits)

lemma build_cmd_video_enc:
  assumes "build_cmd ffmpeg E input_file outp fi chosen = Some cmd"
    and "\<not> safe_copy (video fi) chosen"
  shows "\<exists>enc. map_of E chosen = Some enc \<and> adjacent ''-c:v'' enc cmd
      \<and> adjacent ''-pix_fmt'' ''yuv420p'' cmd \<and> adjacent ''-profile:v'' ''high'' cmd
      \<and> adjacent ''-level'' ''4.1'' cmd"
  using assms
  by (auto simp: build_cmd_def video_args_def adjacent_append
      split: option.splits if_splits)

lemma convert_file_popen_calls:
  assumes "cmd \<in> set (popen_calls (convert_file a j f w))"
  shows "\<exists>ffmpeg. FFMPEG_PATH a = Some ffmpeg \<and>
     build_cmd ffmpeg (ENCODERS a) f (out_path j)
       (get_file_info (FFPROBE_PATH a) (float_of_str j) (probe j))
       (chosen_encoder (ENCODERS a) (encode_w a)) = Some cmd"
  using assms
  by (auto simp: convert_file_def stop_def Let_def split: option.splits if_splits)

lemma chosen_encoder_detect:
  "map_of (detect_encoders_once p run) (chosen_encoder (detect_encoders_once p run) ew)
     \<in> {Some ''libx264'', Some ''h264_amf'', Some ''h264_nvenc'', Some ''h264_qsv''}"
  by (auto simp: chosen_encoder_def auto_best_detect dict_has_detect map_of_detect)

lemma convert_file_started:
  assumes "FFMPEG_PATH a = Some ffmpeg" and "FFPROBE_PATH a = Some ffprobe"
    and "endswith (lower f) ''.avi''" and "input_exists j" and "makedirs_ok j"
    and "get_file_info (Some ffprobe) (float_of_str j) (probe j) = fi"
    and "duration fi \<noteq> Fin 0"
    and "build_cmd ffmpeg (ENCODERS a) f (out_path j) fi (chosen_encoder (ENCODERS a) (encode_w a)) = Some cmd"
    and "popen j = Some h"
  shows "convert_file a j f w =
     (run_job j (duration fi) (job_popen h (job_begin w)))
       \<lparr>calls :=
          (announce_input (ENCODERS a) (encode_w a)
           @ announce_video (video fi) (chosen_encoder (ENCODERS a) (encode_w a)))
          @ calls (run_job j (duration fi) (job_popen h (job_begin w))),
        probes := 1, popen_calls := [cmd]\<rparr>"
  using assms by (simp add: convert_file_def Let_def)

lemma ex_encoders: "ENCODERS ex_app = [(''CPU'', ''libx264'')]"
  by (simp add: ex_app_def detect_encoders_once_def test_encoder_def)

lemma ex_file_info:
  "get_file_info (Some ''ffprobe.exe'') ex_float (Probe_done 0 (Some ex_json)) =
     \<lparr>duration = Fin 120,
      video = [(''codec_name'', JStr ''h264''), (''profile'', JStr ''High''), (''pix_fmt'', JStr ''yuv420p'')],
      audio = JStr ''mp3''\<rparr>"
  by (simp add: get_file_info_def parse_file_info_def ex_json_def ex_float_def)

lemma ex_file_info2:
  "get_file_info (Some ''ffprobe.exe'') ex_float (Probe_done 0 (Some ex_json2)) =
     \<lparr>duration = Fin 120,
      video = [(''codec_name'', JStr ''mpeg4''), (''profile'', JStr ''Simple Profile''), (''pix_fmt'', JStr ''yuv420p'')],
      audio = JStr []\<rparr>"
  by (simp add: get_file_info_def parse_file_info_def ex_json2_def ex_float_def)

lemma ex_avi: "endswith (lower ''movie.avi'') ''.avi''"
  by (simp add: endswith_def lower_def lower_char_def upper_letters_def lower_letters_def)

lemma ex_strip:
  "strip ''out_time_ms=60000000'' = ''out_time_ms=60000000''"
  "strip ''out_time_ms=90000000'' = ''out_time_ms=90000000''"
  "strip ''60000000'' = ''60000000''" "strip ''90000000'' = ''90000000''"
  "strip ''progress=end'' = ''progress=end''" "strip ''out_time_ms'' = ''out_time_ms''"
  by (simp_all add: strip_def is_space_def)

lemma ex_out_time:
  "py_int 4300 ''60000000'' = Some 60000000" "py_int 4300 ''90000000'' = Some 90000000"
  "int_truediv 60000000 1000000 = Some (Fin 60)" "int_truediv 90000000 1000000 = Some (Fin 90)"
  by (simp_all add: py_int_def int_of_digits_def digit_val_def int_truediv_def rnd_values)

lemma ex_progress:
  assumes "d \<noteq> Fin 0" and "float_div (Fin 60) d = Some q"
  shows "progress_line 4300 d ''out_time_ms=60000000'' =
     Some [Set_state None (Some (float_mul q (Fin 100))) None,
           Set_state (Some (St_Progress (float_mul q (Fin 100)))) None None]"
  using assms
  by (simp add: progress_line_def ex_strip startswith_def after_eq_def isdigit_def
      is_digit_char_def digit_val_def ex_out_time)


lemma ex_progress2: "progress_line mxd d ''progress=end'' = Some []"
  by (simp add: progress_line_def ex_strip startswith_def)

lemma ex_build_cmd:
  "build_cmd ''ffmpeg.exe'' [(''CPU'', ''libx264'')] ''movie.avi'' ''out/movie.mp4''
     \<lparr>duration = Fin 120,
      video = [(''codec_name'', JStr ''h264''), (''profile'', JStr ''High''), (''pix_fmt'', JStr ''yuv420p'')],
      audio = JStr ''mp3''\<rparr> ''CPU'' = Some ex_cmd"
  by (simp add: build_cmd_def video_args_def safe_copy_def audio_args_def ex_cmd_def)

lemma ex_build_cmd2:
  "build_cmd ''ffmpeg.exe'' [(''CPU'', ''libx264'')] ''movie.avi'' ''out/movie.mp4''
     \<lparr>duration = Fin 120,
      video = [(''codec_name'', JStr ''mpeg4''), (''profile'', JStr ''Simple Profile''), (''pix_fmt'', JStr ''yuv420p'')],
      audio = JStr []\<rparr> ''CPU'' = Some ex_cmd2"
  by (simp add: build_cmd_def video_args_def safe_copy_def audio_args_def quality_args_def ex_cmd2_def)

lemma ex_chosen: "chosen_encoder [(''CPU'', ''libx264'')] ''CPU'' = ''CPU''"
  by (simp add: chosen_encoder_def dict_has_def)

lemma ex_app_fields:
  "FFMPEG_PATH ex_app = Some ''ffmpeg.exe''"
  "FFPROBE_PATH ex_app = Some ''ffprobe.exe''"
  "encode_w ex_app = ''CPU''"
  by (simp_all add: ex_app_def)

lemma ex_env_fields:
  "input_exists ex_env" "makedirs_ok ex_env" "out_path ex_env = ''out/movie.mp4''"
  "float_of_str ex_env = ex_float" "int_max_str_digits ex_env = 4300" "probe ex_env = Probe_done 0 (Some ex_json)"
  "popen ex_env = Some 2"
  "iters ex_env = [\<lparr>before = [], raw = ''out_time_ms=60000000'', during_wait = []\<rparr>,
                   \<lparr>before = [], raw = ''progress=end'', during_wait = []\<rparr>]"
  "\<not> read_raises ex_env" "final_actions ex_env = []" "child_exit ex_env = 0"
  "graceful_exit ex_env" "out_initial ex_env = None" "out_found ex_env = Some 1000"
  "remove_ok ex_env" "stderr_tail ex_env = []"
  by (simp_all add: ex_env_def)

lemma ex_started:
  assumes "input_exists j" and "makedirs_ok j" and "out_path j = ''out/movie.mp4''"
    and "float_of_str j = ex_float" and "probe j = Probe_done 0 (Some ex_json)"
    and "popen j = Some h"
  shows "convert_file ex_app j ''movie.avi'' w =
     (run_job j (Fin 120) (job_popen h (job_begin w)))
       \<lparr>calls := [Log M_input, Set_state (Some St_Working) None None, Log M_video_copy]
                 @ calls (run_job j (Fin 120) (job_popen h (job_begin w))),
        probes := 1, popen_calls := [ex_cmd]\<rparr>"
  using assms
    convert_file_started[of ex_app "''ffmpeg.exe''" "''ffprobe.exe''" "''movie.avi''" j
      "\<lparr>duration = Fin 120,
      video = [(''codec_name'', JStr ''h264''), (''profile'', JStr ''High''), (''pix_fmt'', JStr ''yuv420p'')],
      audio = JStr ''mp3''\<rparr>" ex_cmd h w]
  by (simp add: ex_avi ex_encoders ex_file_info ex_build_cmd ex_chosen ex_app_fields
       dict_has_def safe_copy_def announce_input_def announce_video_def)

section \<open>Claims on the command builder\<close>

lemma ex_started2:
  assumes "input_exists j" and "makedirs_ok j" and "out_path j = ''out/movie.mp4''"
    and "float_of_str j = ex_float" and "probe j = Probe_done 0 (Some ex_json2)"
    and "popen j = Some h"
  shows "convert_file ex_app j ''movie.avi'' w =
     (run_job j (Fin 120) (job_popen h (job_begin w)))
       \<lparr>calls := [Log M_input, Set_state (Some St_Working) None None, Log (M_video_enc ''CPU'')]
                 @ calls (run_job j (Fin 120) (job_popen h (job_begin w))),
        probes := 1, popen_calls := [ex_cmd2]\<rparr>"
  using assms
    convert_file_started[of ex_app "''ffmpeg.exe''" "''ffprobe.exe''" "''movie.avi''" j
      "\<lparr>duration = Fin 120,
      video = [(''codec_name'', JStr ''mpeg4''), (''profile'', JStr ''Simple Profile''), (''pix_fmt'', JStr ''yuv420p'')],
      audio = JStr []\<rparr>" ex_cmd2 h w]
  by (simp add: ex_avi ex_encoders ex_file_info2 ex_build_cmd2 ex_chosen ex_app_fields
       dict_has_def safe_copy_def announce_input_def announce_video_def)

text \<open>
  Claim C2. For every command a job hands to \<^verbatim>\<open>Popen\<close>, with a capability map that
  detection produced: the command holds \<^verbatim>\<open>-c:v copy\<close> exactly when the probed video
  codec is \<^verbatim>\<open>h264\<close>, the pixel format is \<^verbatim>\<open>yuv420p\<close>, the profile is Baseline, Main or
  High, and the encoder the command is built for (the setting, after the remap of lines
  615 to 620) is CPU. When one of the four fails the command holds \<^verbatim>\<open>-c:v\<close> with the
  codec of the capability map for that encoder, and the fixed pixel format, profile and
  level.
\<close>

theorem C2_video_stream_copy:
  assumes "ENCODERS a = detect_encoders_once p run"
    and "cmd \<in> set (popen_calls (convert_file a j f w))"
  shows "(adjacent ''-c:v'' ''copy'' cmd \<longleftrightarrow>
            map_of (video (get_file_info (FFPROBE_PATH a) (float_of_str j) (probe j))) ''codec_name''
              = Some (JStr ''h264'')
          \<and> map_of (video (get_file_info (FFPROBE_PATH a) (float_of_str j) (probe j))) ''pix_fmt''
              = Some (JStr ''yuv420p'')
          \<and> map_of (video (get_file_info (FFPROBE_PATH a) (float_of_str j) (probe j))) ''profile''
              \<in> {Some (JStr ''Baseline''), Some (JStr ''Main''), Some (JStr ''High'')}
          \<and> chosen_encoder (ENCODERS a) (encode_w a) = ''CPU'')
       \<and> (\<not> adjacent ''-c:v'' ''copy'' cmd \<longrightarrow>
            (\<exists>enc. map_of (ENCODERS a) (chosen_encoder (ENCODERS a) (encode_w a)) = Some enc
                 \<and> enc \<in> {''libx264'', ''h264_amf'', ''h264_nvenc'', ''h264_qsv''}
                 \<and> adjacent ''-c:v'' enc cmd
                 \<and> adjacent ''-pix_fmt'' ''yuv420p'' cmd
                 \<and> adjacent ''-profile:v'' ''high'' cmd
                 \<and> adjacent ''-level'' ''4.1'' cmd))"
proof -
  let ?fi = "get_file_info (FFPROBE_PATH a) (float_of_str j) (probe j)"
  let ?ch = "chosen_encoder (ENCODERS a) (encode_w a)"
  from assms(2) obtain ffmpeg where
    b: "build_cmd ffmpeg (ENCODERS a) f (out_path j) ?fi ?ch = Some cmd"
    using convert_file_popen_calls by blast
  have enc: "map_of (ENCODERS a) ?ch
       \<in> {Some ''libx264'', Some ''h264_amf'', Some ''h264_nvenc'', Some ''h264_qsv''}"
    unfolding assms(1) by (rule chosen_encoder_detect)
  then have nocopy: "map_of (ENCODERS a) ?ch \<noteq> Some ''copy''" by auto
  have copy: "adjacent ''-c:v'' ''copy'' cmd \<longleftrightarrow> safe_copy (video ?fi) ?ch"
    using build_cmd_video_copy[OF b nocopy] .
  have first: "adjacent ''-c:v'' ''copy'' cmd \<longleftrightarrow>
            map_of (video ?fi) ''codec_name'' = Some (JStr ''h264'')
          \<and> map_of (video ?fi) ''pix_fmt'' = Some (JStr ''yuv420p'')
          \<and> map_of (video ?fi) ''profile''
              \<in> {Some (JStr ''Baseline''), Some (JStr ''Main''), Some (JStr ''High'')}
          \<and> ?ch = ''CPU''"
    unfolding copy by (auto simp: safe_copy_def)
  have second: "\<exists>enc. map_of (ENCODERS a) ?ch = Some enc
                 \<and> enc \<in> {''libx264'', ''h264_amf'', ''h264_nvenc'', ''h264_qsv''}
                 \<and> adjacent ''-c:v'' enc cmd
                 \<and> adjacent ''-pix_fmt'' ''yuv420p'' cmd
                 \<and> adjacent ''-profile:v'' ''high'' cmd
                 \<and> adjacent ''-level'' ''4.1'' cmd"
    if "\<not> adjacent ''-c:v'' ''copy'' cmd"
  proof -
    from that copy have "\<not> safe_copy (video ?fi) ?ch" by simp
    from build_cmd_video_enc[OF b this] obtain enc where
      e: "map_of (ENCODERS a) ?ch = Some enc" "adjacent ''-c:v'' enc cmd"
         "adjacent ''-pix_fmt'' ''yuv420p'' cmd" "adjacent ''-profile:v'' ''high'' cmd"
         "adjacent ''-level'' ''4.1'' cmd"
      by blast
    from enc e(1) have "enc \<in> {''libx264'', ''h264_amf'', ''h264_nvenc'', ''h264_qsv''}" by auto
    with e show ?thesis by blast
  qed
  from first second show ?thesis by blast
qed

theorem C2_video_stream_copy_witness:
  "ENCODERS ex_app = detect_encoders_once (Some ''ffmpeg.exe'') (\<lambda>cmd. None)
   \<and> ex_cmd \<in> set (popen_calls (convert_file ex_app ex_env ''movie.avi'' world_init))
   \<and> adjacent ''-c:v'' ''copy'' ex_cmd
   \<and> chosen_encoder (ENCODERS ex_app) (encode_w ex_app) = ''CPU''
   \<and> ex_cmd2 \<in> set (popen_calls (convert_file ex_app (ex_env\<lparr>probe := Probe_done 0 (Some ex_json2)\<rparr>)
                                      ''movie.avi'' world_init))
   \<and> \<not> adjacent ''-c:v'' ''copy'' ex_cmd2
   \<and> adjacent ''-c:v'' ''libx264'' ex_cmd2"
proof -
  have e: "ENCODERS ex_app = detect_encoders_once (Some ''ffmpeg.exe'') (\<lambda>cmd. None)"
    by (simp add: ex_app_def)
  have c1: "ex_cmd \<in> set (popen_calls (convert_file ex_app ex_env ''movie.avi'' world_init))"
    by (simp add: ex_started ex_env_fields)
  have c2: "ex_cmd2 \<in> set (popen_calls (convert_file ex_app (ex_env\<lparr>probe := Probe_done 0 (Some ex_json2)\<rparr>)
                                      ''movie.avi'' world_init))"
    by (simp add: ex_started2 ex_env_fields)
  have n: "\<not> adjacent ''-c:v'' ''copy'' ex_cmd2" by (simp add: ex_cmd2_def)
  have ch: "chosen_encoder (ENCODERS ex_app) (encode_w ex_app) = ''CPU''"
    by (simp add: ex_encoders ex_app_fields ex_chosen)
  have a1: "adjacent ''-c:v'' ''copy'' ex_cmd"
    using C2_video_stream_copy[OF e c1]
    by (simp add: ex_app_fields ex_env_fields ex_file_info ex_encoders ex_chosen)
  have a2: "adjacent ''-c:v'' ''libx264'' ex_cmd2"
    using C2_video_stream_copy[OF e c2] n
    by (auto simp add: ex_encoders ex_app_fields ex_chosen)
  from e c1 c2 n ch a1 a2 show ?thesis by blast
qed

text \<open>
  Claim C3. For every command a job hands to \<^verbatim>\<open>Popen\<close>: it holds \<^verbatim>\<open>-c:a copy\<close>
  exactly when the probed audio codec is \<^verbatim>\<open>aac\<close> or \<^verbatim>\<open>mp3\<close>, and it holds
  \<^verbatim>\<open>-c:a aac\<close> and \<^verbatim>\<open>-b:a 192k\<close> exactly when it is anything else, the empty codec
  of a file without audio included.
\<close>

theorem C3_audio_passthrough:
  assumes "cmd \<in> set (popen_calls (convert_file a j f w))"
  shows "(adjacent ''-c:a'' ''copy'' cmd \<longleftrightarrow>
            audio (get_file_info (FFPROBE_PATH a) (float_of_str j) (probe j)) = JStr ''aac''
          \<or> audio (get_file_info (FFPROBE_PATH a) (float_of_str j) (probe j)) = JStr ''mp3'')
       \<and> (adjacent ''-c:a'' ''aac'' cmd \<and> adjacent ''-b:a'' ''192k'' cmd \<longleftrightarrow>
            \<not> (audio (get_file_info (FFPROBE_PATH a) (float_of_str j) (probe j)) = JStr ''aac''
              \<or> audio (get_file_info (FFPROBE_PATH a) (float_of_str j) (probe j)) = JStr ''mp3''))"
proof -
  from assms obtain ffmpeg where
    b: "build_cmd ffmpeg (ENCODERS a) f (out_path j)
          (get_file_info (FFPROBE_PATH a) (float_of_str j) (probe j))
          (chosen_encoder (ENCODERS a) (encode_w a)) = Some cmd"
    using convert_file_popen_calls by blast
  from build_cmd_audio_copy[OF b] build_cmd_audio_aac[OF b] show ?thesis by blast
qed

theorem C3_audio_passthrough_witness:
  "ex_cmd \<in> set (popen_calls (convert_file ex_app ex_env ''movie.avi'' world_init))
   \<and> adjacent ''-c:a'' ''copy'' ex_cmd
   \<and> audio (get_file_info (FFPROBE_PATH ex_app) (float_of_str ex_env) (probe ex_env)) = JStr ''mp3''
   \<and> ex_cmd2 \<in> set (popen_calls (convert_file ex_app (ex_env\<lparr>probe := Probe_done 0 (Some ex_json2)\<rparr>)
                                      ''movie.avi'' world_init))
   \<and> adjacent ''-c:a'' ''aac'' ex_cmd2 \<and> adjacent ''-b:a'' ''192k'' ex_cmd2
   \<and> audio (get_file_info (FFPROBE_PATH ex_app) (float_of_str ex_env) (Probe_done 0 (Some ex_json2))) = JStr []"
proof -
  have c1: "ex_cmd \<in> set (popen_calls (convert_file ex_app ex_env ''movie.avi'' world_init))"
    by (simp add: ex_started ex_env_fields)
  have c2: "ex_cmd2 \<in> set (popen_calls (convert_file ex_app (ex_env\<lparr>probe := Probe_done 0 (Some ex_json2)\<rparr>)
                                      ''movie.avi'' world_init))"
    by (simp add: ex_started2 ex_env_fields)
  from C3_audio_passthrough[OF c1] C3_audio_passthrough[OF c2] c1 c2
  show ?thesis
    by (simp add: ex_app_fields ex_env_fields ex_file_info ex_file_info2)
qed

section \<open>Claims on the input checks and the probe\<close>

lemma ex_file_info3:
  "get_file_info (Some ''ffprobe.exe'') ex_float (Probe_done 0 (Some ex_json3)) =
     \<lparr>duration = Fin (- 1),
      video = [(''codec_name'', JStr ''h264''), (''profile'', JStr ''High''), (''pix_fmt'', JStr ''yuv420p'')],
      audio = JStr ''mp3''\<rparr>"
  by (simp add: get_file_info_def parse_file_info_def ex_json3_def float_of_int_def rnd_values)

lemma ex_build_cmd3:
  "build_cmd ''ffmpeg.exe'' [(''CPU'', ''libx264'')] ''movie.avi'' ''out/movie.mp4''
     \<lparr>duration = Fin (- 1),
      video = [(''codec_name'', JStr ''h264''), (''profile'', JStr ''High''), (''pix_fmt'', JStr ''yuv420p'')],
      audio = JStr ''mp3''\<rparr> ''CPU'' = Some ex_cmd"
  by (simp add: build_cmd_def video_args_def safe_copy_def audio_args_def ex_cmd_def)

lemma ex_started3:
  assumes "input_exists j" and "makedirs_ok j" and "out_path j = ''out/movie.mp4''"
    and "float_of_str j = ex_float" and "probe j = Probe_done 0 (Some ex_json3)"
    and "popen j = Some h"
  shows "convert_file ex_app j ''movie.avi'' w =
     (run_job j (Fin (- 1)) (job_popen h (job_begin w)))
       \<lparr>calls := [Log M_input, Set_state (Some St_Working) None None, Log M_video_copy]
                 @ calls (run_job j (Fin (- 1)) (job_popen h (job_begin w))),
        probes := 1, popen_calls := [ex_cmd]\<rparr>"
  using assms
    convert_file_started[of ex_app "''ffmpeg.exe''" "''ffprobe.exe''" "''movie.avi''" j
      "\<lparr>duration = Fin (- 1),
      video = [(''codec_name'', JStr ''h264''), (''profile'', JStr ''High''), (''pix_fmt'', JStr ''yuv420p'')],
      audio = JStr ''mp3''\<rparr>" ex_cmd h w]
  by (simp add: ex_avi ex_encoders ex_file_info3 ex_build_cmd3 ex_chosen ex_app_fields
       dict_has_def safe_copy_def announce_input_def announce_video_def)

lemma ex_world: "pause_event (job_popen h (job_begin w))" "\<not> cancel_event (job_popen h (job_begin w))"
  by (simp_all add: job_popen_def job_begin_def)

lemma ex_loop:
  assumes "iters j = iters ex_env" and "d \<noteq> Fin 0" and "float_div (Fin 60) d = Some q"
    and "pause_event w" and "\<not> cancel_event w"
  shows "run_loop 4300 d rr (iters j) w =
     ([Set_state None (Some (float_mul q (Fin 100))) None,
       Set_state (Some (St_Progress (float_mul q (Fin 100)))) None None],
      if rr then Loop_raise else Loop_eof, w)"
  using assms by (simp add: ex_env_fields ex_progress ex_progress2)

lemma ex_run:
  assumes "iters j = iters ex_env" and "int_max_str_digits j = 4300" and "\<not> read_raises j"
    and "final_actions j = []"
    and "d \<noteq> Fin 0" and "float_div (Fin 60) d = Some q"
    and "pause_event w" and "\<not> cancel_event w"
  shows "run_job j d w =
     (finish j (child_exit j) w)
       \<lparr>calls := [Set_state None (Some (float_mul q (Fin 100))) None,
                  Set_state (Some (St_Progress (float_mul q (Fin 100)))) None None]
                 @ calls (finish j (child_exit j) w)\<rparr>"
  using assms by (simp add: run_job_def ex_loop Let_def del: run_loop.simps)

lemma ex_div:
  "float_div (Fin 60) (Fin 120) = Some (Fin (1 / 2))"
  "float_div (Fin 60) (Fin 30) = Some (Fin 2)"
  "float_div (Fin 60) (Fin (- 1)) = Some (Fin (- 60))"
  "float_mul (Fin (1 / 2)) (Fin 100) = Fin 50"
  "float_mul (Fin 2) (Fin 100) = Fin 200"
  "float_mul (Fin (- 60)) (Fin 100) = Fin (- 6000)"
  by (simp_all add: rnd_values)

text \<open>
  Claim C5, as stated, at a parsed duration of \<open>-1\<close>: the guard of line 602 is
  \<^verbatim>\<open>duration == 0\<close>, so the job is not stopped, the transcoder is started and the job
  completes.
\<close>

theorem C5_negative_duration_counterexample:
  "duration (get_file_info (FFPROBE_PATH ex_app) ex_float (Probe_done 0 (Some ex_json3))) = Fin (- 1)
   \<and> popen_calls (convert_file ex_app (ex_env\<lparr>probe := Probe_done 0 (Some ex_json3)\<rparr>)
                     ''movie.avi'' world_init) = [ex_cmd]
   \<and> outcome (convert_file ex_app (ex_env\<lparr>probe := Probe_done 0 (Some ex_json3)\<rparr>)
                     ''movie.avi'' world_init) = Completed"
  by (simp add: ex_started3 ex_app_fields ex_file_info3 ex_env_fields
      ex_run[where q = "Fin (- 60)"] rnd_values ex_world finish_def)

text \<open>
  Claim C5, amended. For a job that reaches the probe (tools resolved, an existing
  \<^verbatim>\<open>.avi\<close> input, output directory made): if running the probe raises, or it exits
  non-zero, or its output is not JSON, or the JSON does not have the expected shape, or the
  parsed duration equals 0, then the job ends as inspection failed after one probe run,
  with the single message of line 603, without any call of \<^verbatim>\<open>Popen\<close>, and the file at
  the output path is the one that was there before. (Line 592 has created the output
  directory by then.)
\<close>

theorem C5_inspection_failed:
  assumes "FFMPEG_PATH a = Some ffmpeg" and "FFPROBE_PATH a = Some ffprobe"
    and "endswith (lower f) ''.avi''" and "input_exists j" and "makedirs_ok j"
    and "probe j = Probe_raises
         \<or> (\<exists>rc out. probe j = Probe_done rc out \<and> rc \<noteq> 0)
         \<or> (\<exists>rc. probe j = Probe_done rc None)
         \<or> (\<exists>rc data. probe j = Probe_done rc (Some data)
               \<and> parse_file_info (float_of_str j) data = None)
         \<or> (\<exists>rc data fi. probe j = Probe_done rc (Some data)
               \<and> parse_file_info (float_of_str j) data = Some fi \<and> duration fi = Fin 0)"
  shows "outcome (convert_file a j f w) = Inspection_failed
       \<and> calls (convert_file a j f w) = [Log M_no_file_info]
       \<and> probes (convert_file a j f w) = 1
       \<and> popen_calls (convert_file a j f w) = []
       \<and> out_file (convert_file a j f w) = out_initial j"
proof -
  have "duration (get_file_info (Some ffprobe) (float_of_str j) (probe j)) = Fin 0"
    using assms(6) by (auto simp: get_file_info_def no_file_info_def)
  with assms(1-5) show ?thesis
    by (simp add: convert_file_def stop_def Let_def)
qed

theorem C5_inspection_failed_witness:
  "outcome (convert_file ex_app (ex_env\<lparr>probe := Probe_done 1 None\<rparr>) ''movie.avi'' world_init)
     = Inspection_failed
   \<and> popen_calls (convert_file ex_app (ex_env\<lparr>probe := Probe_done 1 None\<rparr>) ''movie.avi'' world_init) = []
   \<and> outcome (convert_file ex_app
        (ex_env\<lparr>probe := Probe_done 0 (Some (JObj [(''format'', JObj [(''duration'', JInt 0)])]))\<rparr>)
        ''movie.avi'' world_init) = Inspection_failed
   \<and> popen_calls (convert_file ex_app
        (ex_env\<lparr>probe := Probe_done 0 (Some (JObj [(''format'', JObj [(''duration'', JInt 0)])]))\<rparr>)
        ''movie.avi'' world_init) = []"
proof -
  have p: "parse_file_info ex_float (JObj [(''format'', JObj [(''duration'', JInt 0)])])
         = Some \<lparr>duration = Fin 0, video = [], audio = JStr []\<rparr>"
    by (simp add: parse_file_info_def float_of_int_def rnd_values)
  show ?thesis
    using C5_inspection_failed[of ex_app "''ffmpeg.exe''" "''ffprobe.exe''" "''movie.avi''"
            "ex_env\<lparr>probe := Probe_done 1 None\<rparr>" world_init]
          C5_inspection_failed[of ex_app "''ffmpeg.exe''" "''ffprobe.exe''" "''movie.avi''"
            "ex_env\<lparr>probe := Probe_done 0 (Some (JObj [(''format'', JObj [(''duration'', JInt 0)])]))\<rparr>"
            world_init]
    by (simp add: ex_app_fields ex_env_fields ex_avi p)
qed

text \<open>
  Claim C6. With the tools resolved, as they are once start-up has passed: for an input
  path that does not end in \<^verbatim>\<open>.avi\<close> when lower-cased, or that does not exist, the
  controller posts one log line (skipped, or missing file) and returns: no probe run, no
  call of \<^verbatim>\<open>Popen\<close>, no status change, the shared state and the output path untouched.
\<close>

theorem C6_skipped:
  assumes "FFMPEG_PATH a \<noteq> None" and "FFPROBE_PATH a \<noteq> None"
    and "\<not> endswith (lower f) ''.avi'' \<or> \<not> input_exists j"
  shows "outcome (convert_file a j f w) = Skipped
       \<and> calls (convert_file a j f w) =
           [Log (if \<not> endswith (lower f) ''.avi'' then M_skipped_not_avi f else M_missing_file f)]
       \<and> probes (convert_file a j f w) = 0
       \<and> popen_calls (convert_file a j f w) = []
       \<and> world_end (convert_file a j f w) = w
       \<and> out_file (convert_file a j f w) = out_initial j"
  using assms by (auto simp: convert_file_def stop_def)

theorem C6_skipped_witness:
  "calls (convert_file ex_app ex_env ''movie.mp4'' world_init) = [Log (M_skipped_not_avi ''movie.mp4'')]
   \<and> probes (convert_file ex_app ex_env ''movie.mp4'' world_init) = 0
   \<and> popen_calls (convert_file ex_app ex_env ''movie.mp4'' world_init) = []
   \<and> calls (convert_file ex_app (ex_env\<lparr>input_exists := False\<rparr>) ''Movie.AVI'' world_init)
       = [Log (M_missing_file ''Movie.AVI'')]
   \<and> outcome (convert_file ex_app (ex_env\<lparr>input_exists := False\<rparr>) ''Movie.AVI'' world_init) = Skipped"
  using C6_skipped[of ex_app "''movie.mp4''" ex_env world_init]
        C6_skipped[of ex_app "''Movie.AVI''" "ex_env\<lparr>input_exists := False\<rparr>" world_init]
  by (simp add: ex_app_fields endswith_def lower_def lower_char_def upper_letters_def
      lower_letters_def)

section \<open>Properties of the controller\<close>

lemma convert_file_launched:
  assumes "popen_calls (convert_file a j f w) \<noteq> []" and "popen j = Some h"
  shows "convert_file a j f w =
     (run_job j (duration (get_file_info (FFPROBE_PATH a) (float_of_str j) (probe j)))
        (job_popen h (job_begin w)))
       \<lparr>calls :=
          (announce_input (ENCODERS a) (encode_w a)
           @ announce_video (video (get_file_info (FFPROBE_PATH a) (float_of_str j) (probe j)))
               (chosen_encoder (ENCODERS a) (encode_w a)))
          @ calls (run_job j (duration (get_file_info (FFPROBE_PATH a) (float_of_str j) (probe j)))
                     (job_popen h (job_begin w))),
        probes := 1, popen_calls := popen_calls (convert_file a j f w)\<rparr>"
  using assms
  by (auto simp: convert_file_def stop_def Let_def split: option.splits if_splits)

lemma convert_file_not_launched:
  assumes "popen_calls (convert_file a j f w) = [] \<or> popen j = None"
  shows "outcome (convert_file a j f w)
           \<in> {Tools_missing, Skipped, Uncaught_error, Inspection_failed, Launch_failed}
       \<and> out_file (convert_file a j f w) = out_initial j"
  using assms
  by (auto simp: convert_file_def stop_def Let_def split: option.splits if_splits)

lemma convert_file_begun:
  assumes "FFMPEG_PATH a \<noteq> None" and "FFPROBE_PATH a \<noteq> None"
    and "endswith (lower f) ''.avi''" and "input_exists j"
    and "popen_calls (convert_file a j f w) = [] \<or> popen j = None"
  shows "world_end (convert_file a j f w) = job_begin w"
  using assms
  by (auto simp: convert_file_def stop_def Let_def split: option.splits if_splits)

lemma launched_fields:
  assumes "popen_calls (convert_file a j f w) \<noteq> []" and "popen j = Some h"
  shows "outcome (convert_file a j f w)
           = outcome (run_job j (duration (get_file_info (FFPROBE_PATH a) (float_of_str j) (probe j)))
                        (job_popen h (job_begin w)))"
    and "calls (convert_file a j f w)
           = announce_input (ENCODERS a) (encode_w a)
             @ announce_video (video (get_file_info (FFPROBE_PATH a) (float_of_str j) (probe j)))
                 (chosen_encoder (ENCODERS a) (encode_w a))
             @ calls (run_job j (duration (get_file_info (FFPROBE_PATH a) (float_of_str j) (probe j)))
                        (job_popen h (job_begin w)))"
    and "out_file (convert_file a j f w)
           = out_file (run_job j (duration (get_file_info (FFPROBE_PATH a) (float_of_str j) (probe j)))
                        (job_popen h (job_begin w)))"
    and "world_end (convert_file a j f w)
           = world_end (run_job j (duration (get_file_info (FFPROBE_PATH a) (float_of_str j) (probe j)))
                        (job_popen h (job_begin w)))"
  using assms
  by (auto simp: convert_file_def stop_def Let_def split: option.splits if_splits)

lemma run_job_outcome:
  "outcome (run_job j d w) =
     (case fst (snd (run_loop (int_max_str_digits j) d (read_raises j) (iters j) w)) of
        Loop_cancel \<Rightarrow> Cancelled
      | Loop_blocked \<Rightarrow> Blocked
      | Loop_raise \<Rightarrow>
          (if cancel_event (apply_actions (final_actions j)
                (snd (snd (run_loop (int_max_str_digits j) d (read_raises j) (iters j) w))))
           then Cancelled else Failed)
      | Loop_eof \<Rightarrow>
          (if cancel_event (apply_actions (final_actions j)
                (snd (snd (run_loop (int_max_str_digits j) d (read_raises j) (iters j) w))))
           then Cancelled
           else if child_exit j \<noteq> 0 then Failed
           else if \<not> (case out_found j of None \<Rightarrow> False | Some n \<Rightarrow> n > 0) then Failed
           else Completed))"
  by (simp add: run_job_def cancel_in_loop_def finish_def Let_def
      split: prod.splits loop_end.splits)


lemma run_job_world:
  "world_end (run_job j d w) =
     (case fst (snd (run_loop (int_max_str_digits j) d (read_raises j) (iters j) w)) of
        Loop_cancel \<Rightarrow>
          (if graceful_exit j
           then send_signal SIGTERM (snd (snd (run_loop (int_max_str_digits j) d (read_raises j) (iters j) w)))
           else send_signal SIGKILL (send_signal SIGTERM
                  (snd (snd (run_loop (int_max_str_digits j) d (read_raises j) (iters j) w)))))
      | Loop_blocked \<Rightarrow> snd (snd (run_loop (int_max_str_digits j) d (read_raises j) (iters j) w))
      | Loop_raise \<Rightarrow>
          apply_actions (final_actions j)
            (snd (snd (run_loop (int_max_str_digits j) d (read_raises j) (iters j) w)))
      | Loop_eof \<Rightarrow>
          apply_actions (final_actions j)
            (snd (snd (run_loop (int_max_str_digits j) d (read_raises j) (iters j) w))))"
  by (simp add: run_job_def cancel_in_loop_def finish_def Let_def
      split: prod.splits loop_end.splits)

lemma progress_line_calls:
  assumes "progress_line mxd d r = Some cs" and "c \<in> set cs"
  shows "\<exists>p. c = Set_state None (Some p) None \<or> c = Set_state (Some (St_Progress p)) None None"
  using assms
  by (auto simp: progress_line_def Let_def split: if_splits option.splits)

lemma run_loop_Cons:
  "run_loop mxd d rr (it # its) w =
     (if cancel_event (apply_actions (before it) w) then ([], Loop_cancel, apply_actions (before it) w)
      else if \<not> wait_returns (apply_actions (before it) w) (during_wait it) then
        ([], Loop_blocked, apply_actions (during_wait it) (apply_actions (before it) w))
      else
        (case progress_line mxd d (raw it) of
           None \<Rightarrow> ([], Loop_raise, apply_actions (during_wait it) (apply_actions (before it) w))
         | Some cs \<Rightarrow>
             (cs @ fst (run_loop mxd d rr its (apply_actions (during_wait it) (apply_actions (before it) w))),
              snd (run_loop mxd d rr its (apply_actions (during_wait it) (apply_actions (before it) w))))))"
  by (simp add: Let_def split: option.splits prod.splits)

lemma loop_eof_Nil: "fst (snd (run_loop mxd d rr [] w)) = Loop_eof \<longleftrightarrow> \<not> rr"
  by simp





lemma run_loop_calls:
  assumes "c \<in> set (fst (run_loop mxd d rr its w))"
  shows "\<exists>p. c = Set_state None (Some p) None \<or> c = Set_state (Some (St_Progress p)) None None"
  using assms
proof (induction its arbitrary: w)
  case Nil
  then show ?case by simp
next
  case (Cons it its)
  let ?w2 = "apply_actions (during_wait it) (apply_actions (before it) w)"
  from Cons.prems obtain cs where
    p: "progress_line mxd d (raw it) = Some cs"
    and m: "c \<in> set cs \<or> c \<in> set (fst (run_loop mxd d rr its ?w2))"
    unfolding run_loop_Cons by (auto split: if_splits option.splits)
  from m show ?case
  proof
    assume "c \<in> set cs"
    with p show ?thesis by (rule progress_line_calls)
  next
    assume "c \<in> set (fst (run_loop mxd d rr its ?w2))"
    then show ?thesis by (rule Cons.IH)
  qed
qed

text \<open>With no action of another thread, a loop started with the cancel flag clear and the
  pause flag set leaves the shared state as it found it and is never cancelled or left
  waiting.\<close>

lemma run_loop_alone:
  assumes "list_all (\<lambda>it. before it = [] \<and> during_wait it = []) its"
    and "\<not> cancel_event w" and "pause_event w"
  shows "snd (snd (run_loop mxd d rr its w)) = w
       \<and> fst (snd (run_loop mxd d rr its w)) \<in> {Loop_eof, Loop_raise}"
  using assms
proof (induction its)
  case Nil
  then show ?case by simp
next
  case (Cons it its)
  then show ?case
    unfolding run_loop_Cons by (auto split: option.splits)
qed


lemma ex_begin:
  "job_popen h (job_begin world_init) =
     \<lparr>current_process = Some h, pause_event = True, cancel_event = False,
      status_label = St_Idle, progress_bar = Fin 0, pause_btn = ''Pause'', signals = []\<rparr>"
  by (simp add: job_popen_def job_begin_def world_init_def)

lemma wait_returns_iff:
  "wait_returns w acts \<longleftrightarrow> (\<exists>n\<le>length acts. pause_event (apply_actions (take n acts) w))"
proof (induction acts arbitrary: w)
  case Nil
  then show ?case by simp
next
  case (Cons a acts)
  show ?case
  proof
    assume "wait_returns w (a # acts)"
    then consider "pause_event w" | "wait_returns (apply_action a w) acts" by auto
    then show "\<exists>n\<le>length (a # acts). pause_event (apply_actions (take n (a # acts)) w)"
    proof cases
      case 1
      then have "pause_event (apply_actions (take 0 (a # acts)) w)" by simp
      then show ?thesis by blast
    next
      case 2
      with Cons.IH obtain n where
        "n \<le> length acts" "pause_event (apply_actions (take n acts) (apply_action a w))"
        by blast
      then have "Suc n \<le> length (a # acts)
           \<and> pause_event (apply_actions (take (Suc n) (a # acts)) w)" by simp
      then show ?thesis by blast
    qed
  next
    assume "\<exists>n\<le>length (a # acts). pause_event (apply_actions (take n (a # acts)) w)"
    then obtain n where
      n: "n \<le> length (a # acts)" "pause_event (apply_actions (take n (a # acts)) w)"
      by blast
    show "wait_returns w (a # acts)"
    proof (cases n)
      case 0
      with n show ?thesis by simp
    next
      case (Suc m)
      with n have "m \<le> length acts" "pause_event (apply_actions (take m acts) (apply_action a w))"
        by simp_all
      with Cons.IH have "wait_returns (apply_action a w) acts" by blast
      then show ?thesis by simp
    qed
  qed
qed

text \<open>The cancel flag is tested before the wait: a pass that finds it set ends the loop
  at once, whatever the pause flag; a pass that finds it clear and whose wait does not
  return leaves the job in the loop.\<close>

lemma cancel_checked_before_wait:
  "cancel_event (apply_actions (before it) w) \<Longrightarrow>
     run_loop mxd d rr (it # its) w = ([], Loop_cancel, apply_actions (before it) w)"
  "\<not> cancel_event (apply_actions (before it) w) \<Longrightarrow>
   \<not> wait_returns (apply_actions (before it) w) (during_wait it) \<Longrightarrow>
     run_loop mxd d rr (it # its) w
       = ([], Loop_blocked, apply_actions (during_wait it) (apply_actions (before it) w))"
  by (simp_all add: run_loop_Cons del: run_loop.simps)








lemma ex_sample_calls:
  "calls (convert_file ex_app ex_env ''movie.avi'' world_init)
     = [Log M_input, Set_state (Some St_Working) None None, Log M_video_copy,
        Set_state None (Some (Fin 50)) None, Set_state (Some (St_Progress (Fin 50))) None None,
        Set_state (Some St_Done) (Some (Fin 100)) None, Log (M_output ''out/movie.mp4''),
        After_800_idle_reset]"
  by (simp add: ex_started ex_env_fields ex_run[where q = "Fin (1 / 2)"] rnd_values ex_world
      finish_def)

section \<open>Claims on the controller\<close>




text \<open>
  Claim C1, as stated, at two jobs. In the first the process exits with status 1 having
  written 1000 bytes: the job fails and the 1000 bytes stay at the output path, since
  lines 755 to 757 remove the file only when its size is 0. In the second the job is
  cancelled and \<^verbatim>\<open>os.remove\<close> raises, as it does on a file that is still open: the
  handler of line 746 passes, and the 1000 bytes stay.
\<close>

theorem C1_partial_output_counterexample:
  "outcome (convert_file ex_app (ex_env\<lparr>child_exit := 1\<rparr>) ''movie.avi'' world_init) = Failed
   \<and> out_file (convert_file ex_app (ex_env\<lparr>child_exit := 1\<rparr>) ''movie.avi'' world_init) = Some 1000
   \<and> outcome (convert_file ex_app (ex_env\<lparr>final_actions := [Ui_cancel], remove_ok := False\<rparr>)
        ''movie.avi'' world_init) = Cancelled
   \<and> out_file (convert_file ex_app (ex_env\<lparr>final_actions := [Ui_cancel], remove_ok := False\<rparr>)
        ''movie.avi'' world_init) = Some 1000"
proof -
  have r2: "run_job (ex_env\<lparr>final_actions := [Ui_cancel], remove_ok := False\<rparr>) (Fin 120)
              (job_popen 2 (job_begin world_init))
      = (finish (ex_env\<lparr>final_actions := [Ui_cancel], remove_ok := False\<rparr>) 0
           (cancel (job_popen 2 (job_begin world_init))))
          \<lparr>calls := [Set_state None (Some (Fin 50)) None, Set_state (Some (St_Progress (Fin 50))) None None]
             @ calls (finish (ex_env\<lparr>final_actions := [Ui_cancel], remove_ok := False\<rparr>) 0
                        (cancel (job_popen 2 (job_begin world_init))))\<rparr>"
    using ex_loop[of "ex_env\<lparr>final_actions := [Ui_cancel], remove_ok := False\<rparr>" "Fin 120"
            "Fin (1 / 2)" "job_popen 2 (job_begin world_init)" False]
    by (simp add: run_job_def ex_env_fields ex_world rnd_values Let_def del: run_loop.simps)
  have ce: "cancel_event (cancel u)" for u
    by (simp add: cancel_def set_ui_state_def)
  show ?thesis
    by (simp add: ex_started ex_env_fields ex_run[where q = "Fin (1 / 2)"] rnd_values ex_world
        r2 ce finish_def)
qed

text \<open>
  Claim C1, amended. After a cancelled job no file is at the output path, unless
  \<^verbatim>\<open>os.remove\<close> raises: then the file found there stays. A job fails in one of two
  ways: with the message of line 764 (zero exit, output missing or empty), and then no
  non-empty file is at the output path; or with the message of line 752 (non-zero exit or
  read error), and then an empty output file is removed and any other is left as the
  process wrote it. A job that fails before a process is started (inspection or launch)
  leaves the output path as it was.
\<close>

theorem C1_output_after_failure:
  "(outcome (convert_file a j f w) = Cancelled \<longrightarrow>
      out_file (convert_file a j f w) = (if remove_ok j then None else out_found j))
   \<and> (outcome (convert_file a j f w) = Failed \<longrightarrow>
        (Log M_output_missing \<in> set (calls (convert_file a j f w))
           \<and> (out_found j = None \<or> out_found j = Some 0)
           \<and> out_file (convert_file a j f w) = out_found j)
        \<or> (Log M_ffmpeg_failed \<in> set (calls (convert_file a j f w))
           \<and> out_file (convert_file a j f w)
               = (if out_found j = Some 0 \<and> remove_ok j then None else out_found j)))
   \<and> (outcome (convert_file a j f w) = Inspection_failed
       \<or> outcome (convert_file a j f w) = Launch_failed \<longrightarrow>
        out_file (convert_file a j f w) = out_initial j)"
proof (cases "popen_calls (convert_file a j f w) = [] \<or> popen j = None")
  case True
  from convert_file_not_launched[OF this] show ?thesis by auto
next
  case False
  then obtain h where l: "popen_calls (convert_file a j f w) \<noteq> []" "popen j = Some h"
    by auto
  let ?d = "duration (get_file_info (FFPROBE_PATH a) (float_of_str j) (probe j))"
  let ?w = "job_popen h (job_begin w)"
  let ?r = "run_job j ?d ?w"
  note lf = launched_fields[OF l]
  have c: "set (calls ?r) \<subseteq> set (calls (convert_file a j f w))"
    unfolding lf by auto
  have 1: "outcome ?r = Cancelled \<longrightarrow> out_file ?r = (if remove_ok j then None else out_found j)"
    by (auto simp: run_job_def cancel_in_loop_def finish_def Let_def
        split: prod.splits loop_end.splits if_splits)
  have 2: "outcome ?r = Failed \<longrightarrow>
        (Log M_output_missing \<in> set (calls ?r)
           \<and> (out_found j = None \<or> out_found j = Some 0)
           \<and> out_file ?r = out_found j)
        \<or> (Log M_ffmpeg_failed \<in> set (calls ?r)
           \<and> out_file ?r = (if out_found j = Some 0 \<and> remove_ok j then None else out_found j))"
    by (auto simp: run_job_def cancel_in_loop_def finish_def Let_def
        split: prod.splits loop_end.splits if_splits option.splits)
  have 3: "outcome ?r \<noteq> Inspection_failed \<and> outcome ?r \<noteq> Launch_failed"
    by (auto simp: run_job_outcome split: loop_end.splits)
  from 1 2 3 c show ?thesis unfolding lf(1,3) by auto
qed

text \<open>Instances of C1: a failure with an empty output, a cancellation seen at line 742,
  an inspection failure over an older 7-byte output.\<close>

theorem C1_output_after_failure_witness:
  "outcome (convert_file ex_app (ex_env\<lparr>child_exit := 1, out_found := Some 0\<rparr>) ''movie.avi'' world_init)
     = Failed
   \<and> out_file (convert_file ex_app (ex_env\<lparr>child_exit := 1, out_found := Some 0\<rparr>) ''movie.avi'' world_init)
     = None
   \<and> outcome (convert_file ex_app (ex_env\<lparr>final_actions := [Ui_cancel]\<rparr>) ''movie.avi'' world_init)
     = Cancelled
   \<and> out_file (convert_file ex_app (ex_env\<lparr>final_actions := [Ui_cancel]\<rparr>) ''movie.avi'' world_init)
     = None
   \<and> outcome (convert_file ex_app (ex_env\<lparr>probe := Probe_done 1 None, out_initial := Some 7\<rparr>)
        ''movie.avi'' world_init) = Inspection_failed
   \<and> out_file (convert_file ex_app (ex_env\<lparr>probe := Probe_done 1 None, out_initial := Some 7\<rparr>)
        ''movie.avi'' world_init) = Some 7"
proof -
  have o1: "outcome (convert_file ex_app (ex_env\<lparr>child_exit := 1, out_found := Some 0\<rparr>)
              ''movie.avi'' world_init) = Failed"
    by (simp add: ex_started ex_env_fields ex_run[where q = "Fin (1 / 2)"] rnd_values ex_world
        finish_def)
  have m1: "Log M_output_missing \<notin> set (calls (convert_file ex_app
              (ex_env\<lparr>child_exit := 1, out_found := Some 0\<rparr>) ''movie.avi'' world_init))"
    by (simp add: ex_started ex_env_fields ex_run[where q = "Fin (1 / 2)"] rnd_values ex_world
        finish_def)
  have f1: "out_file (convert_file ex_app (ex_env\<lparr>child_exit := 1, out_found := Some 0\<rparr>)
              ''movie.avi'' world_init) = None"
    using C1_output_after_failure[of ex_app "ex_env\<lparr>child_exit := 1, out_found := Some 0\<rparr>"
            "''movie.avi''" world_init] o1 m1
    by (simp add: ex_env_fields)
  have r2: "run_job (ex_env\<lparr>final_actions := [Ui_cancel]\<rparr>) (Fin 120) (job_popen 2 (job_begin world_init))
      = (finish (ex_env\<lparr>final_actions := [Ui_cancel]\<rparr>) 0 (cancel (job_popen 2 (job_begin world_init))))
          \<lparr>calls := [Set_state None (Some (Fin 50)) None, Set_state (Some (St_Progress (Fin 50))) None None]
             @ calls (finish (ex_env\<lparr>final_actions := [Ui_cancel]\<rparr>) 0
                        (cancel (job_popen 2 (job_begin world_init))))\<rparr>"
    using ex_loop[of "ex_env\<lparr>final_actions := [Ui_cancel]\<rparr>" "Fin 120" "Fin (1 / 2)"
            "job_popen 2 (job_begin world_init)" False]
    by (simp add: run_job_def ex_env_fields ex_world rnd_values Let_def del: run_loop.simps)
  have ce: "cancel_event (cancel u)" for u
    by (simp add: cancel_def set_ui_state_def)
  have o2: "outcome (convert_file ex_app (ex_env\<lparr>final_actions := [Ui_cancel]\<rparr>) ''movie.avi'' world_init)
     = Cancelled"
    by (simp add: ex_started ex_env_fields r2 finish_def ce)
  have f2: "out_file (convert_file ex_app (ex_env\<lparr>final_actions := [Ui_cancel]\<rparr>) ''movie.avi'' world_init)
     = None"
    using C1_output_after_failure[of ex_app "ex_env\<lparr>final_actions := [Ui_cancel]\<rparr>"
            "''movie.avi''" world_init] o2
    by (simp add: ex_env_fields)
  have o3: "outcome (convert_file ex_app (ex_env\<lparr>probe := Probe_done 1 None, out_initial := Some 7\<rparr>)
        ''movie.avi'' world_init) = Inspection_failed"
    by (simp add: convert_file_def ex_app_fields ex_avi ex_env_fields get_file_info_def
        no_file_info_def stop_def Let_def)
  have f3: "out_file (convert_file ex_app (ex_env\<lparr>probe := Probe_done 1 None, out_initial := Some 7\<rparr>)
        ''movie.avi'' world_init) = Some 7"
    using C1_output_after_failure[of ex_app "ex_env\<lparr>probe := Probe_done 1 None, out_initial := Some 7\<rparr>"
            "''movie.avi''" world_init] o3
    by simp
  from o1 f1 o2 f2 o3 f3 show ?thesis by blast
qed




text \<open>
  Claim C9 at a job that is paused and then cancelled while it waits at line 717. The
  claim has the pause wait end on a cancellation; \<open>cancel\<close> (lines 800 to 802) sets
  the cancel flag only, so the wait does not return: the job stays in the loop, the
  process it stopped with \<^verbatim>\<open>SIGSTOP\<close> is never terminated, nothing more is posted, and the
  1000 bytes written so far stay at the output path, while the status shows Cancelled.
  When the same two buttons are pressed before the pass instead, line 695 sees the flag:
  the process is terminated, the output removed and the cancellation posted.
\<close>

theorem C9_cancel_while_paused:
  "\<not> wait_returns (pause_resume (job_popen 2 (job_begin world_init))) [Ui_cancel]
   \<and> convert_file ex_app
        (ex_env\<lparr>iters := [\<lparr>before = [Ui_pause_resume], raw = ''out_time_ms=60000000'',
                            during_wait = [Ui_cancel]\<rparr>]\<rparr>)
        ''movie.avi'' world_init
       = \<lparr>outcome = Blocked,
          calls = [Log M_input, Set_state (Some St_Working) None None, Log M_video_copy],
          probes = 1, popen_calls = [ex_cmd], out_file = Some 1000,
          world_end = \<lparr>current_process = Some 2, pause_event = False, cancel_event = True,
                       status_label = St_Cancelled, progress_bar = Fin 0, pause_btn = ''Resume'',
                       signals = [(2, SIGSTOP)]\<rparr>\<rparr>
   \<and> convert_file ex_app
        (ex_env\<lparr>iters := [\<lparr>before = [Ui_pause_resume, Ui_cancel], raw = ''out_time_ms=60000000'',
                            during_wait = []\<rparr>]\<rparr>)
        ''movie.avi'' world_init
       = \<lparr>outcome = Cancelled,
          calls = [Log M_input, Set_state (Some St_Working) None None, Log M_video_copy,
                   Log M_cancelled_deleted, Set_state (Some St_Idle) (Some (Fin 0)) (Some ''Pause'')],
          probes = 1, popen_calls = [ex_cmd], out_file = None,
          world_end = \<lparr>current_process = Some 2, pause_event = False, cancel_event = True,
                       status_label = St_Cancelled, progress_bar = Fin 0, pause_btn = ''Resume'',
                       signals = [(2, SIGSTOP), (2, SIGTERM)]\<rparr>\<rparr>"
proof -
  have p: "pause_resume (job_popen 2 (job_begin world_init)) =
     \<lparr>current_process = Some 2, pause_event = False, cancel_event = False,
      status_label = St_Paused, progress_bar = Fin 0, pause_btn = ''Resume'',
      signals = [(2, SIGSTOP)]\<rparr>"
    by (simp add: ex_begin pause_resume_def set_ui_state_def send_signal_def)
  have c: "cancel \<lparr>current_process = Some 2, pause_event = False, cancel_event = False,
      status_label = St_Paused, progress_bar = Fin 0, pause_btn = ''Resume'',
      signals = [(2, SIGSTOP)]\<rparr> =
     \<lparr>current_process = Some 2, pause_event = False, cancel_event = True,
      status_label = St_Cancelled, progress_bar = Fin 0, pause_btn = ''Resume'',
      signals = [(2, SIGSTOP)]\<rparr>"
    by (simp add: cancel_def set_ui_state_def py_max_def py_min_def)
  show ?thesis
    by (simp add: ex_started ex_env_fields run_job_def cancel_in_loop_def send_signal_def p c)
qed

text \<open>
  Claim C10, as stated, at two jobs: the first runs process 2 and has been cancelled, or
  paused, when a second call of \<open>convert_file\<close> starts process 3. The second call clears
  the cancel flag, sets the pause flag and replaces the process handle that the first
  job reads; a first job cancelled before a pass is cancelled, and completes when the
  second call begins in between.
\<close>

theorem C10_other_job_counterexample:
  "cancel_event (cancel (job_popen 2 (job_begin world_init)))
   \<and> \<not> cancel_event (world_end (convert_file ex_app (ex_env\<lparr>popen := Some 3\<rparr>) ''movie.avi''
                                   (cancel (job_popen 2 (job_begin world_init)))))
   \<and> current_process (cancel (job_popen 2 (job_begin world_init))) = Some 2
   \<and> current_process (world_end (convert_file ex_app (ex_env\<lparr>popen := Some 3\<rparr>) ''movie.avi''
                                    (cancel (job_popen 2 (job_begin world_init))))) = Some 3
   \<and> \<not> pause_event (pause_resume (job_popen 2 (job_begin world_init)))
   \<and> pause_event (world_end (convert_file ex_app (ex_env\<lparr>popen := Some 3\<rparr>) ''movie.avi''
                                (pause_resume (job_popen 2 (job_begin world_init)))))
   \<and> outcome (convert_file ex_app
        (ex_env\<lparr>iters := [\<lparr>before = [Ui_cancel], raw = ''progress=end'', during_wait = []\<rparr>]\<rparr>)
        ''movie.avi'' world_init) = Cancelled
   \<and> outcome (convert_file ex_app
        (ex_env\<lparr>iters := [\<lparr>before = [Ui_cancel, Job_begin, Job_popen 3], raw = ''progress=end'',
                            during_wait = []\<rparr>]\<rparr>)
        ''movie.avi'' world_init) = Completed"
proof -
  have w: "world_end (convert_file ex_app (ex_env\<lparr>popen := Some 3\<rparr>) ''movie.avi'' u)
             = job_popen 3 (job_begin u)" for u
    by (simp add: ex_started ex_env_fields ex_run[where q = "Fin (1 / 2)"] rnd_values ex_world
        finish_def)
  have g: "cancel_event (cancel (job_popen 2 (job_begin world_init)))
   \<and> \<not> cancel_event (job_popen 3 (job_begin (cancel (job_popen 2 (job_begin world_init)))))
   \<and> current_process (cancel (job_popen 2 (job_begin world_init))) = Some 2
   \<and> current_process (job_popen 3 (job_begin (cancel (job_popen 2 (job_begin world_init))))) = Some 3
   \<and> \<not> pause_event (pause_resume (job_popen 2 (job_begin world_init)))
   \<and> pause_event (job_popen 3 (job_begin (pause_resume (job_popen 2 (job_begin world_init)))))"
    by (simp add: job_popen_def job_begin_def cancel_def pause_resume_def set_ui_state_def
        send_signal_def world_init_def)
  have a: "outcome (convert_file ex_app
        (ex_env\<lparr>iters := [\<lparr>before = [Ui_cancel], raw = ''progress=end'', during_wait = []\<rparr>]\<rparr>)
        ''movie.avi'' world_init) = Cancelled"
    by (simp add: ex_started ex_env_fields run_job_def cancel_in_loop_def cancel_def
        set_ui_state_def)
  have b: "outcome (convert_file ex_app
        (ex_env\<lparr>iters := [\<lparr>before = [Ui_cancel, Job_begin, Job_popen 3], raw = ''progress=end'',
                            during_wait = []\<rparr>]\<rparr>)
        ''movie.avi'' world_init) = Completed"
    by (simp add: ex_started ex_env_fields run_job_def ex_progress2 finish_def cancel_def
        set_ui_state_def job_begin_def job_popen_def)
  from g a b show ?thesis unfolding w by blast
qed

text \<open>
  Claim C10, amended. The process handle, the cancel flag and the pause flag are single
  module globals that all jobs share. For every shared state \<open>w\<close> that other jobs and the
  interface have left: a call of \<open>convert_file\<close> that passes the input checks and starts
  no process returns with the cancel flag cleared and the pause flag set, the rest of \<open>w\<close>
  unchanged; a call that starts the process \<open>h\<close> and runs with no action of another thread
  returns with, in addition, the handle replaced by \<open>h\<close>, and from then on the pause
  button signals \<open>h\<close>; \<open>cancel\<close> sets the one cancel flag and leaves the handle and the
  pause flag; \<open>pause_resume\<close> toggles the one pause flag and signals the process the
  handle names at that moment; and a pass of a running job before which another call of
  \<open>convert_file\<close> has passed lines 588 and 589 finds the cancel flag clear and the pause
  flag set, whatever was requested of the running job before.
\<close>

theorem C10_shared_globals:
  "(FFMPEG_PATH a \<noteq> None \<and> FFPROBE_PATH a \<noteq> None \<and> endswith (lower f) ''.avi''
      \<and> input_exists j \<and> (popen_calls (convert_file a j f w) = [] \<or> popen j = None) \<longrightarrow>
      world_end (convert_file a j f w) = w\<lparr>cancel_event := False, pause_event := True\<rparr>)
   \<and> (popen_calls (convert_file a j f w) \<noteq> [] \<and> popen j = Some h
      \<and> list_all (\<lambda>it. before it = [] \<and> during_wait it = []) (iters j)
      \<and> final_actions j = [] \<longrightarrow>
      world_end (convert_file a j f w)
        = w\<lparr>cancel_event := False, pause_event := True, current_process := Some h\<rparr>
      \<and> signals (pause_resume (world_end (convert_file a j f w))) = signals w @ [(h, SIGSTOP)])
   \<and> cancel_event (cancel w) \<and> current_process (cancel w) = current_process w
   \<and> pause_event (cancel w) = pause_event w
   \<and> pause_event (pause_resume w) = (\<not> pause_event w)
   \<and> signals (pause_resume w) =
        signals w @ (case current_process w of
                       None \<Rightarrow> []
                     | Some p \<Rightarrow> [(p, if pause_event w then SIGSTOP else SIGCONT)])
   \<and> (before it = acts @ [Job_begin] \<longrightarrow>
        run_loop mxd d rr (it # its) w =
          (case progress_line mxd d (raw it) of
             None \<Rightarrow> ([], Loop_raise,
                       apply_actions (during_wait it) (job_begin (apply_actions acts w)))
           | Some cs \<Rightarrow>
               (cs @ fst (run_loop mxd d rr its
                            (apply_actions (during_wait it) (job_begin (apply_actions acts w)))),
                snd (run_loop mxd d rr its
                       (apply_actions (during_wait it) (job_begin (apply_actions acts w)))))))"
proof -
  have 1: "world_end (convert_file a j f w) = w\<lparr>cancel_event := False, pause_event := True\<rparr>"
    if "FFMPEG_PATH a \<noteq> None" "FFPROBE_PATH a \<noteq> None" "endswith (lower f) ''.avi''"
      "input_exists j" "popen_calls (convert_file a j f w) = [] \<or> popen j = None"
    using convert_file_begun[OF that] by (simp add: job_begin_def)
  have 2: "world_end (convert_file a j f w)
        = w\<lparr>cancel_event := False, pause_event := True, current_process := Some h\<rparr>
      \<and> signals (pause_resume (world_end (convert_file a j f w))) = signals w @ [(h, SIGSTOP)]"
    if l: "popen_calls (convert_file a j f w) \<noteq> []" "popen j = Some h"
      and al: "list_all (\<lambda>it. before it = [] \<and> during_wait it = []) (iters j)"
      and fa: "final_actions j = []"
  proof -
    let ?D = "duration (get_file_info (FFPROBE_PATH a) (float_of_str j) (probe j))"
    let ?W = "job_popen h (job_begin w)"
    have r: "snd (snd (run_loop (int_max_str_digits j) ?D (read_raises j) (iters j) ?W)) = ?W
       \<and> fst (snd (run_loop (int_max_str_digits j) ?D (read_raises j) (iters j) ?W))
           \<in> {Loop_eof, Loop_raise}"
      using al by (rule run_loop_alone) (simp_all add: ex_world)
    have e: "world_end (convert_file a j f w) = ?W"
      unfolding launched_fields(4)[OF l] run_job_world using r fa by auto
    show ?thesis
      unfolding e
      by (simp add: job_popen_def job_begin_def pause_resume_def set_ui_state_def send_signal_def)
  qed
  have 3: "cancel_event (cancel w) \<and> current_process (cancel w) = current_process w
   \<and> pause_event (cancel w) = pause_event w
   \<and> pause_event (pause_resume w) = (\<not> pause_event w)
   \<and> signals (pause_resume w) =
        signals w @ (case current_process w of
                       None \<Rightarrow> []
                     | Some p \<Rightarrow> [(p, if pause_event w then SIGSTOP else SIGCONT)])"
    by (auto simp: cancel_def pause_resume_def set_ui_state_def send_signal_def
        split: option.splits)
  have ap: "apply_actions (xs @ ys) u = apply_actions ys (apply_actions xs u)" for xs ys u
    by (induction xs arbitrary: u) simp_all
  have wr: "pause_event u \<Longrightarrow> wait_returns u as" for u as
    by (cases as) simp_all
  have 4: "run_loop mxd d rr (it # its) w =
          (case progress_line mxd d (raw it) of
             None \<Rightarrow> ([], Loop_raise,
                       apply_actions (during_wait it) (job_begin (apply_actions acts w)))
           | Some cs \<Rightarrow>
               (cs @ fst (run_loop mxd d rr its
                            (apply_actions (during_wait it) (job_begin (apply_actions acts w)))),
                snd (run_loop mxd d rr its
                       (apply_actions (during_wait it) (job_begin (apply_actions acts w))))))"
    if b: "before it = acts @ [Job_begin]"
  proof -
    have w1: "apply_actions (before it) w = job_begin (apply_actions acts w)"
      unfolding b ap by simp
    have f: "\<not> cancel_event (job_begin (apply_actions acts w))"
      "wait_returns (job_begin (apply_actions acts w)) (during_wait it)"
      by (simp_all add: wr job_begin_def)
    show ?thesis
      unfolding run_loop_Cons w1 using f by simp
  qed
  from 1 2 3 4 show ?thesis by blast
qed

text \<open>Instances of C10, with a first job that runs process 2 and has been cancelled: a
  second call that stops at the probe, a second call that starts process 3, and the pass
  of the first job after the second call has begun.\<close>

theorem C10_shared_globals_witness:
  "cancel_event (cancel (job_popen 2 (job_begin world_init)))
   \<and> current_process (cancel (job_popen 2 (job_begin world_init))) = Some 2
   \<and> outcome (convert_file ex_app (ex_env\<lparr>probe := Probe_done 1 None\<rparr>) ''movie.avi''
        (cancel (job_popen 2 (job_begin world_init)))) = Inspection_failed
   \<and> world_end (convert_file ex_app (ex_env\<lparr>probe := Probe_done 1 None\<rparr>) ''movie.avi''
        (cancel (job_popen 2 (job_begin world_init))))
       = \<lparr>current_process = Some 2, pause_event = True, cancel_event = False,
          status_label = St_Cancelled, progress_bar = Fin 0, pause_btn = ''Pause'', signals = []\<rparr>
   \<and> world_end (convert_file ex_app (ex_env\<lparr>popen := Some 3\<rparr>) ''movie.avi''
        (cancel (job_popen 2 (job_begin world_init))))
       = \<lparr>current_process = Some 3, pause_event = True, cancel_event = False,
          status_label = St_Cancelled, progress_bar = Fin 0, pause_btn = ''Pause'', signals = []\<rparr>
   \<and> signals (pause_resume (world_end (convert_file ex_app (ex_env\<lparr>popen := Some 3\<rparr>) ''movie.avi''
        (cancel (job_popen 2 (job_begin world_init))))))
       = [(3, SIGSTOP)]
   \<and> run_loop 4300 (Fin 120) False
       [\<lparr>before = [Ui_cancel, Job_begin], raw = ''progress=end'', during_wait = []\<rparr>]
       (job_popen 2 (job_begin world_init))
       = ([], Loop_eof, job_begin (cancel (job_popen 2 (job_begin world_init))))"
proof -
  let ?w = "cancel (job_popen 2 (job_begin world_init))"
  let ?u = "ex_env\<lparr>probe := Probe_done 1 None\<rparr>"
  let ?l = "ex_env\<lparr>popen := Some 3\<rparr>"
  have cw: "?w = \<lparr>current_process = Some 2, pause_event = True, cancel_event = True,
          status_label = St_Cancelled, progress_bar = Fin 0, pause_btn = ''Pause'', signals = []\<rparr>"
    by (simp add: ex_begin cancel_def set_ui_state_def py_max_def py_min_def)
  have o: "outcome (convert_file ex_app ?u ''movie.avi'' ?w) = Inspection_failed"
    and n: "popen_calls (convert_file ex_app ?u ''movie.avi'' ?w) = []"
    by (simp_all add: convert_file_def ex_app_fields ex_avi ex_env_fields get_file_info_def
        no_file_info_def stop_def Let_def)
  have a1: "world_end (convert_file ex_app ?u ''movie.avi'' ?w)
       = \<lparr>current_process = Some 2, pause_event = True, cancel_event = False,
          status_label = St_Cancelled, progress_bar = Fin 0, pause_btn = ''Pause'', signals = []\<rparr>"
    using C10_shared_globals[where a = ex_app and j = ?u and f = "''movie.avi''" and w = ?w,
            THEN conjunct1] n
    by (simp add: ex_app_fields ex_avi ex_env_fields cw)
  have l: "popen_calls (convert_file ex_app ?l ''movie.avi'' ?w) \<noteq> []"
    by (simp add: ex_started ex_env_fields)
  have a2: "world_end (convert_file ex_app ?l ''movie.avi'' ?w)
       = \<lparr>current_process = Some 3, pause_event = True, cancel_event = False,
          status_label = St_Cancelled, progress_bar = Fin 0, pause_btn = ''Pause'', signals = []\<rparr>
     \<and> signals (pause_resume (world_end (convert_file ex_app ?l ''movie.avi'' ?w))) = [(3, SIGSTOP)]"
  proof -
    have hy: "popen_calls (convert_file ex_app ?l ''movie.avi'' ?w) \<noteq> [] \<and> popen ?l = Some 3
        \<and> list_all (\<lambda>it. before it = [] \<and> during_wait it = []) (iters ?l)
        \<and> final_actions ?l = []"
      using l by (simp add: ex_env_fields)
    have "world_end (convert_file ex_app ?l ''movie.avi'' ?w)
        = ?w\<lparr>cancel_event := False, pause_event := True, current_process := Some 3\<rparr>
      \<and> signals (pause_resume (world_end (convert_file ex_app ?l ''movie.avi'' ?w)))
        = signals ?w @ [(3, SIGSTOP)]"
      using C10_shared_globals[where a = ex_app and j = ?l and f = "''movie.avi''" and w = ?w
              and h = 3, THEN conjunct2, THEN conjunct1] hy
      by blast
    then show ?thesis
      unfolding cw by (elim conjE) simp
  qed
  have a3: "run_loop 4300 (Fin 120) False
       [\<lparr>before = [Ui_cancel, Job_begin], raw = ''progress=end'', during_wait = []\<rparr>]
       (job_popen 2 (job_begin world_init))
       = ([], Loop_eof, job_begin ?w)"
    using C10_shared_globals[where it = "\<lparr>before = [Ui_cancel, Job_begin], raw = ''progress=end'',
              during_wait = []\<rparr>" and acts = "[Ui_cancel]" and mxd = 4300 and d = "Fin 120"
            and rr = False and its = "[]" and w = "job_popen 2 (job_begin world_init)",
            THEN conjunct2, THEN conjunct2, THEN conjunct2, THEN conjunct2, THEN conjunct2,
            THEN conjunct2, THEN conjunct2]
    by (simp add: ex_progress2)
  have c: "cancel_event ?w \<and> current_process ?w = Some 2"
    unfolding cw by simp
  from c o a1 a2 a3 show ?thesis by blast
qed

end
